theory Spec2Isabelle
  imports Main "HOL-Library.Word"
begin

unbundle bit_operations_syntax

section \<open>The ESP-IDF OTA backend (ota\_backend\_esp\_idf.cpp)\<close>

text \<open>
  A shallow embedding of \<^verbatim>\<open>IDFOTABackend\<close>: the four operations of an update session
  (begin, write, end, abort) as functions that take the backend object and the state of
  the platform and return the response code, the updated object and the updated platform.
  Sizes and offsets are \<^verbatim>\<open>size_t\<close>, 32 bits wide: where the source adds to one, the sum is
  taken modulo \<open>2^32\<close>. The result of \<open>end\<close> is an option, \<open>None\<close> for a call that does not
  return: each of its two loops over the buffer starts over when its offset wraps around.

  The ESP-IDF calls the backend makes (heap, partitions, OTA transactions, watchdog) are
  not part of the repository. They are a parameter of every operation: a record of
  functions over a platform state of any type \<open>'w\<close>. Theorems stated for every such record
  hold whatever the storage layer does.
\<close>

subsection \<open>Types\<close>

type_synonym u8 = "8 word"

text \<open>\<^verbatim>\<open>const esp_partition_t *\<close>: a reference to an entry of the partition table;
  \<open>None\<close> is \<^verbatim>\<open>nullptr\<close>.\<close>
type_synonym part_ref = nat

text \<open>\<^verbatim>\<open>esp_ota_handle_t\<close>; 0 is "no transaction".\<close>
type_synonym ota_handle = nat

text \<open>\<^verbatim>\<open>esp_err_t\<close>: the codes the backend tests for, and the other codes the calls it makes
  are documented to return.\<close>
datatype esp_err =
    ESP_OK
  | ESP_FAIL
  | ESP_ERR_NO_MEM
  | ESP_ERR_INVALID_ARG
  | ESP_ERR_INVALID_STATE
  | ESP_ERR_INVALID_SIZE
  | ESP_ERR_NOT_FOUND
  | ESP_ERR_FLASH_OP_TIMEOUT
  | ESP_ERR_FLASH_OP_FAIL
  | ESP_ERR_OTA_VALIDATE_FAILED

text \<open>\<^verbatim>\<open>OTAResponseTypes\<close> (declared in ota\_backend.h): the codes this backend returns. In the
  words of the specification: Ok, NoUpdatePartition, InsufficientSpace, FlashWriteError,
  MagicMismatch, ChecksumMismatch, UpdateEndError, UnknownError.\<close>
datatype OTAResponseTypes =
    OTA_RESPONSE_OK
  | OTA_RESPONSE_ERROR_NO_UPDATE_PARTITION
  | OTA_RESPONSE_ERROR_ESP32_NOT_ENOUGH_SPACE
  | OTA_RESPONSE_ERROR_WRITING_FLASH
  | OTA_RESPONSE_ERROR_MAGIC
  | OTA_RESPONSE_ERROR_MD5_MISMATCH
  | OTA_RESPONSE_ERROR_UPDATE_END
  | OTA_RESPONSE_ERROR_UNKNOWN

datatype esp_partition_type = ESP_PARTITION_TYPE_APP | ESP_PARTITION_TYPE_DATA

datatype esp_partition_subtype =
    ESP_PARTITION_SUBTYPE_ANY
  | ESP_PARTITION_SUBTYPE_APP_FACTORY
  | ESP_PARTITION_SUBTYPE_APP_OTA_0
  | ESP_PARTITION_SUBTYPE_APP_OTA_1

subsection \<open>The digest accumulator\<close>

text \<open>
  Modelled from the spec: \<^verbatim>\<open>md5::MD5Digest\<close> (esphome/components/md5) is not among the
  source files. The specification describes it as an incremental checksum over streamed
  bytes, finalized once and compared, case-insensitively and as a fixed-length hexadecimal
  string, against an expected value. The accumulator keeps the bytes fed since \<open>init\<close>;
  \<open>calculate\<close> stores the digest of those bytes. The hash function itself is a parameter.
\<close>

record MD5Digest =
  fed :: "u8 list"
  digest :: "u8 list"

definition md5_init :: "MD5Digest \<Rightarrow> MD5Digest" where
  "md5_init d = d\<lparr>fed := []\<rparr>"

definition md5_add :: "MD5Digest \<Rightarrow> u8 list \<Rightarrow> MD5Digest" where
  "md5_add d data = d\<lparr>fed := fed d @ data\<rparr>"

definition md5_calculate :: "(u8 list \<Rightarrow> u8 list) \<Rightarrow> MD5Digest \<Rightarrow> MD5Digest" where
  "md5_calculate h d = d\<lparr>digest := h (fed d)\<rparr>"

definition hex_digit :: "char \<Rightarrow> nat option" where
  "hex_digit c =
     (let n = (of_char c :: nat) in
      if 48 \<le> n \<and> n \<le> 57 then Some (n - 48)
      else if 97 \<le> n \<and> n \<le> 102 then Some (n - 87)
      else if 65 \<le> n \<and> n \<le> 70 then Some (n - 55)
      else None)"

fun parse_hex :: "string \<Rightarrow> u8 list option" where
  "parse_hex [] = Some []"
| "parse_hex [c] = None"
| "parse_hex (a # b # cs) =
     (case (hex_digit a, hex_digit b, parse_hex cs) of
        (Some x, Some y, Some r) \<Rightarrow> Some (of_nat (16 * x + y) # r)
      | _ \<Rightarrow> None)"

definition equals_hex :: "MD5Digest \<Rightarrow> string \<Rightarrow> bool" where
  "equals_hex d expected =
     (case parse_hex (take 32 expected) of
        Some bs \<Rightarrow> length bs = 16 \<and> bs = digest d
      | None \<Rightarrow> False)"

subsection \<open>The platform\<close>

text \<open>
  The calls of ESP-IDF the backend makes, each as a function of the platform state.
  \<open>heap_caps_malloc\<close> returns the pointer together with the (uninitialised) contents of the
  block, or \<open>None\<close> for a null pointer. \<open>esp_ota_begin\<close> has an out-parameter, the handle:
  it takes the old value of the variable and returns the new one.
  \<open>esp_partition_read\<close> returns the bytes it stored in the destination buffer.
  \<open>partition_size\<close> reads the field \<^verbatim>\<open>size\<close> of a partition table entry, and
  \<open>CONFIG_ESP_TASK_WDT_TIMEOUT_S\<close> is the build's watchdog timeout.
\<close>

record 'w platform =
  CONFIG_ESP_TASK_WDT_TIMEOUT_S :: nat
  md5_hash :: "u8 list \<Rightarrow> u8 list"
  heap_caps_get_free_size :: "'w \<Rightarrow> nat"
  heap_caps_malloc :: "nat \<Rightarrow> 'w \<Rightarrow> (nat \<times> u8 list) option \<times> 'w"
  heap_caps_free :: "nat \<Rightarrow> 'w \<Rightarrow> 'w"
  esp_task_wdt_reconfigure :: "nat \<Rightarrow> 'w \<Rightarrow> 'w"
  esp_task_wdt_reset :: "'w \<Rightarrow> 'w"
  esp_ota_get_next_update_partition :: "'w \<Rightarrow> part_ref option"
  esp_ota_begin :: "part_ref \<Rightarrow> nat \<Rightarrow> ota_handle \<Rightarrow> 'w \<Rightarrow> esp_err \<times> ota_handle \<times> 'w"
  esp_ota_write :: "ota_handle \<Rightarrow> u8 list \<Rightarrow> 'w \<Rightarrow> esp_err \<times> 'w"
  esp_ota_end :: "ota_handle \<Rightarrow> 'w \<Rightarrow> esp_err \<times> 'w"
  esp_ota_abort :: "ota_handle \<Rightarrow> 'w \<Rightarrow> 'w"
  esp_ota_set_boot_partition :: "part_ref option \<Rightarrow> 'w \<Rightarrow> esp_err \<times> 'w"
  esp_partition_find_first ::
    "esp_partition_type \<Rightarrow> esp_partition_subtype \<Rightarrow> string option \<Rightarrow> 'w \<Rightarrow> part_ref option"
  partition_size :: "part_ref \<Rightarrow> 'w \<Rightarrow> nat"
  esp_partition_erase_range :: "part_ref \<Rightarrow> nat \<Rightarrow> nat \<Rightarrow> 'w \<Rightarrow> esp_err \<times> 'w"
  esp_partition_write :: "part_ref \<Rightarrow> nat \<Rightarrow> u8 list \<Rightarrow> 'w \<Rightarrow> esp_err \<times> 'w"
  esp_partition_read :: "part_ref \<Rightarrow> nat \<Rightarrow> nat \<Rightarrow> 'w \<Rightarrow> esp_err \<times> u8 list \<times> 'w"

subsection \<open>The backend object\<close>

text \<open>The fields of \<^verbatim>\<open>class IDFOTABackend\<close> (ota\_backend\_esp\_idf.h). \<open>psram_buffer\<close> is the
  pointer together with the bytes of the block it points to; \<open>None\<close> is \<^verbatim>\<open>nullptr\<close>.
  A field is named as in the class, without the trailing underscore (\<open>partition_ptr\<close> is
  \<^verbatim>\<open>partition_\<close>).\<close>

record IDFOTABackend =
  update_handle :: ota_handle
  partition_ptr :: "part_ref option"
  md5 :: MD5Digest
  expected_bin_md5 :: string
  md5_set :: bool
  use_psram :: bool
  psram_buffer :: "(nat \<times> u8 list) option"
  buffer_size :: nat
  bytes_received :: nat
  target_partition_label :: string

text \<open>The object as its member initialisers leave it.\<close>
definition new_backend :: IDFOTABackend where
  "new_backend =
     \<lparr> update_handle = 0, partition_ptr = None,
       md5 = \<lparr> fed = [], digest = [] \<rparr>,
       expected_bin_md5 = [], md5_set = False, use_psram = False,
       psram_buffer = None, buffer_size = 0, bytes_received = 0,
       target_partition_label = [] \<rparr>"

definition set_psram_mode :: "bool \<Rightarrow> IDFOTABackend \<Rightarrow> IDFOTABackend" where
  "set_psram_mode enable s = s\<lparr>use_psram := enable\<rparr>"

text \<open>\<^verbatim>\<open>make_ota_backend\<close>; the argument says whether \<^verbatim>\<open>USE_OTA_PSRAM_MODE\<close> is defined.\<close>
definition make_ota_backend :: "bool \<Rightarrow> IDFOTABackend" where
  "make_ota_backend psram_mode =
     (if psram_mode then set_psram_mode True new_backend else new_backend)"

definition set_update_md5 :: "string \<Rightarrow> IDFOTABackend \<Rightarrow> IDFOTABackend" where
  "set_update_md5 expected_md5 s =
     s\<lparr>expected_bin_md5 := take 32 expected_md5, md5_set := True\<rparr>"

text \<open>The label is a C string in a 17-byte array: at most 16 characters are kept, and an
  empty (or null) label leaves the field as it is.\<close>
definition set_target_partition :: "string \<Rightarrow> IDFOTABackend \<Rightarrow> IDFOTABackend" where
  "set_target_partition label s =
     (if length label > 0 then s\<lparr>target_partition_label := take 16 label\<rparr> else s)"

text \<open>The bytes of the PSRAM buffer; a null pointer has none.\<close>
definition buffer_bytes :: "IDFOTABackend \<Rightarrow> u8 list" where
  "buffer_bytes s = (case psram_buffer s of None \<Rightarrow> [] | Some (p, b) \<Rightarrow> b)"

text \<open>\<^verbatim>\<open>size_t\<close> is 32 bits wide on the ESP32 family: a sum of two sizes wraps around.\<close>
definition size_t_add :: "nat \<Rightarrow> nat \<Rightarrow> nat" where
  "size_t_add a b = (a + b) mod 2 ^ 32"

text \<open>\<^verbatim>\<open>memcpy(buf + off, data, len)\<close> on the bytes of a block. Within the block it replaces
  \<open>length data\<close> bytes at \<open>off\<close>; the guard of \<open>write\<close> keeps every copy inside the block
  as long as the sum it tests does not wrap.\<close>
definition memcpy_at :: "u8 list \<Rightarrow> nat \<Rightarrow> u8 list \<Rightarrow> u8 list" where
  "memcpy_at buf off data = take off buf @ data @ drop (off + length data) buf"

subsection \<open>abort\<close>

text \<open>\<^verbatim>\<open>IDFOTABackend::abort\<close>, lines 228-239.\<close>
definition IDFOTABackend_abort ::
  "'w platform \<Rightarrow> IDFOTABackend \<Rightarrow> 'w \<Rightarrow> IDFOTABackend \<times> 'w" where
  "IDFOTABackend_abort P s w =
     (case (case psram_buffer s of
              Some (p, b) \<Rightarrow> (s\<lparr>psram_buffer := None\<rparr>, heap_caps_free P p w)
            | None \<Rightarrow> (s, w)) of
        (s1, w1) \<Rightarrow>
          (case (if update_handle s1 \<noteq> 0
                 then (s1\<lparr>update_handle := 0\<rparr>, esp_ota_abort P (update_handle s1) w1)
                 else (s1, w1)) of
             (s2, w2) \<Rightarrow> (s2\<lparr>buffer_size := 0, bytes_received := 0\<rparr>, w2)))"

subsection \<open>begin\<close>

text \<open>The mapping of a failed \<^verbatim>\<open>esp_ota_begin\<close>, lines 86-91.\<close>
definition begin_error :: "esp_err \<Rightarrow> OTAResponseTypes" where
  "begin_error err =
     (if err = ESP_ERR_INVALID_SIZE then OTA_RESPONSE_ERROR_ESP32_NOT_ENOUGH_SPACE
      else if err = ESP_ERR_FLASH_OP_TIMEOUT \<or> err = ESP_ERR_FLASH_OP_FAIL
      then OTA_RESPONSE_ERROR_WRITING_FLASH
      else OTA_RESPONSE_ERROR_UNKNOWN)"

text \<open>\<^verbatim>\<open>IDFOTABackend::begin\<close>, lines 27-95. The watchdog is reconfigured around
  \<^verbatim>\<open>esp_ota_begin\<close> only in a build whose configured timeout is below 15 seconds.\<close>
definition IDFOTABackend_begin ::
  "'w platform \<Rightarrow> IDFOTABackend \<Rightarrow> 'w \<Rightarrow> nat \<Rightarrow> OTAResponseTypes \<times> IDFOTABackend \<times> 'w" where
  "IDFOTABackend_begin P s w image_size =
     (if use_psram s then
        (if heap_caps_get_free_size P w = 0 then (OTA_RESPONSE_ERROR_NO_UPDATE_PARTITION, s, w)
         else
           let free_psram = heap_caps_get_free_size P w in
           if free_psram < image_size then (OTA_RESPONSE_ERROR_ESP32_NOT_ENOUGH_SPACE, s, w)
           else
             (case heap_caps_malloc P image_size w of
                (buf, w1) \<Rightarrow>
                  let s1 = s\<lparr>psram_buffer := buf\<rparr> in
                  if buf = None then (OTA_RESPONSE_ERROR_ESP32_NOT_ENOUGH_SPACE, s1, w1)
                  else
                    (OTA_RESPONSE_OK,
                     s1\<lparr>buffer_size := image_size, bytes_received := 0,
                        md5 := md5_init (md5 s1)\<rparr>,
                     w1)))
      else
        let s1 = s\<lparr>partition_ptr := esp_ota_get_next_update_partition P w\<rparr> in
        (case partition_ptr s1 of
           None \<Rightarrow> (OTA_RESPONSE_ERROR_NO_UPDATE_PARTITION, s1, w)
         | Some part \<Rightarrow>
             let w1 = (if CONFIG_ESP_TASK_WDT_TIMEOUT_S P < 15
                       then esp_task_wdt_reconfigure P 15000 w else w)
             in
             (case esp_ota_begin P part image_size (update_handle s1) w1 of
                (err, h, w2) \<Rightarrow>
                  let s2 = s1\<lparr>update_handle := h\<rparr>;
                      w3 = (if CONFIG_ESP_TASK_WDT_TIMEOUT_S P < 15
                            then esp_task_wdt_reconfigure P
                                   (CONFIG_ESP_TASK_WDT_TIMEOUT_S P * 1000) w2
                            else w2)
                  in
                  if err \<noteq> ESP_OK then
                    (begin_error err, s2\<lparr>update_handle := 0\<rparr>,
                     esp_ota_abort P (update_handle s2) w3)
                  else (OTA_RESPONSE_OK, s2\<lparr>md5 := md5_init (md5 s2)\<rparr>, w3))))"

subsection \<open>write\<close>

text \<open>The mapping of a failed \<^verbatim>\<open>esp_ota_write\<close>, lines 119-124.\<close>
definition write_error :: "esp_err \<Rightarrow> OTAResponseTypes" where
  "write_error err =
     (if err = ESP_ERR_OTA_VALIDATE_FAILED then OTA_RESPONSE_ERROR_MAGIC
      else if err = ESP_ERR_FLASH_OP_TIMEOUT \<or> err = ESP_ERR_FLASH_OP_FAIL
      then OTA_RESPONSE_ERROR_WRITING_FLASH
      else OTA_RESPONSE_ERROR_UNKNOWN)"

text \<open>\<^verbatim>\<open>IDFOTABackend::write\<close>, lines 102-127; the chunk is the list of its \<open>len\<close> bytes.
  The sum in the guard is a sum of two \<^verbatim>\<open>size_t\<close> values. A copy through a null buffer
  pointer, which the guard lets through only for a stale \<open>buffer_size\<close> or an empty chunk,
  leaves the pointer null.\<close>
definition IDFOTABackend_write ::
  "'w platform \<Rightarrow> IDFOTABackend \<Rightarrow> 'w \<Rightarrow> u8 list \<Rightarrow> OTAResponseTypes \<times> IDFOTABackend \<times> 'w" where
  "IDFOTABackend_write P s w data =
     (let len = length data in
      if use_psram s then
        (if size_t_add (bytes_received s) len > buffer_size s
         then (OTA_RESPONSE_ERROR_UNKNOWN, s, w)
         else
           (OTA_RESPONSE_OK,
            s\<lparr>psram_buffer :=
                 map_option (\<lambda>(p, b). (p, memcpy_at b (bytes_received s) data))
                   (psram_buffer s),
               bytes_received := size_t_add (bytes_received s) len,
               md5 := md5_add (md5 s) data\<rparr>,
            w))
      else
        (case esp_ota_write P (update_handle s) data w of
           (err, w1) \<Rightarrow>
             let s1 = s\<lparr>md5 := md5_add (md5 s) data\<rparr> in
             if err \<noteq> ESP_OK then (write_error err, s1, w1)
             else (OTA_RESPONSE_OK, s1, w1)))"

subsection \<open>end\<close>

text \<open>\<^verbatim>\<open>const size_t CHUNK_SIZE = 4096\<close>, line 172.\<close>
definition CHUNK_SIZE :: nat where
  "CHUNK_SIZE = 4096"

text \<open>The loop of lines 173-182: the buffer is written to the partition chunk by chunk, and
  the watchdog is serviced after each chunk. It stops at the first failed write and returns
  its code. The chunk is the \<open>chunk_len\<close> bytes of the buffer at the offset. The offset is a
  \<^verbatim>\<open>size_t\<close>, so \<^verbatim>\<open>offset += CHUNK_SIZE\<close> is an addition modulo \<open>2^32\<close>: for a
  buffer of more than \<open>2^32 - 4096\<close> bytes the offset comes back to \<open>0\<close> after the last chunk
  and the loop starts over. A loop that never ends has the value \<open>None\<close>.\<close>
partial_function (option) flash_from_psram ::
  "'w platform \<Rightarrow> part_ref \<Rightarrow> u8 list \<Rightarrow> nat \<Rightarrow> nat \<Rightarrow> 'w \<Rightarrow> (esp_err \<times> 'w) option" where
  "flash_from_psram P part buf bsize offset w =
     (if offset < bsize then
        (let chunk_len = min CHUNK_SIZE (bsize - offset) in
         case esp_partition_write P part offset (take chunk_len (drop offset buf)) w of
           (err, w1) \<Rightarrow>
             if err \<noteq> ESP_OK then Some (err, w1)
             else flash_from_psram P part buf bsize (size_t_add offset CHUNK_SIZE)
                    (esp_task_wdt_reset P w1))
      else Some (ESP_OK, w))"

text \<open>The loop of lines 185-195: every chunk is read back into \<open>verify_buf\<close> and compared
  with the buffer (\<^verbatim>\<open>memcmp\<close> over \<open>chunk_len\<close> bytes). The result says whether every chunk
  passed. The offset is a \<^verbatim>\<open>size_t\<close> as in the loop above, and \<open>None\<close> is again the loop
  that never ends. The allocation of the 4096 bytes of \<open>verify_buf\<close> is taken to succeed.\<close>
partial_function (option) verify_flash ::
  "'w platform \<Rightarrow> part_ref \<Rightarrow> u8 list \<Rightarrow> nat \<Rightarrow> nat \<Rightarrow> 'w \<Rightarrow> (bool \<times> 'w) option" where
  "verify_flash P part buf bsize offset w =
     (if offset < bsize then
        (let chunk_len = min CHUNK_SIZE (bsize - offset) in
         case esp_partition_read P part offset chunk_len w of
           (err, verify_buf, w1) \<Rightarrow>
             if err \<noteq> ESP_OK \<or> take chunk_len verify_buf \<noteq> take chunk_len (drop offset buf)
             then Some (False, w1)
             else verify_flash P part buf bsize (size_t_add offset CHUNK_SIZE)
                    (esp_task_wdt_reset P w1))
      else Some (True, w))"

text \<open>\<^verbatim>\<open>this->abort(); return r;\<close>\<close>
definition abort_return ::
  "OTAResponseTypes \<Rightarrow> 'w platform \<Rightarrow> IDFOTABackend \<Rightarrow> 'w
     \<Rightarrow> OTAResponseTypes \<times> IDFOTABackend \<times> 'w" where
  "abort_return r P s w = (case IDFOTABackend_abort P s w of (s1, w1) \<Rightarrow> (r, s1, w1))"

text \<open>"Find target partition", lines 143-161: the lookup of each of the two branches.\<close>
definition target_lookup :: "'w platform \<Rightarrow> IDFOTABackend \<Rightarrow> 'w \<Rightarrow> part_ref option" where
  "target_lookup P s w =
     (if target_partition_label s \<noteq> []
      then esp_partition_find_first P ESP_PARTITION_TYPE_APP ESP_PARTITION_SUBTYPE_ANY
             (Some (target_partition_label s)) w
      else esp_partition_find_first P ESP_PARTITION_TYPE_APP
             ESP_PARTITION_SUBTYPE_APP_OTA_0 None w)"

text \<open>PSRAM mode, lines 140-208: find the partition, erase it, write the buffer, verify,
  set the boot partition. Every exit calls \<open>abort\<close>. The call returns nothing (\<open>None\<close>)
  when one of the two loops never ends.\<close>
definition end_psram ::
  "'w platform \<Rightarrow> IDFOTABackend \<Rightarrow> 'w \<Rightarrow> (OTAResponseTypes \<times> IDFOTABackend \<times> 'w) option" where
  "end_psram P s w =
     (let s1 = s\<lparr>partition_ptr := target_lookup P s w\<rparr> in
      case partition_ptr s1 of
        None \<Rightarrow> Some (abort_return OTA_RESPONSE_ERROR_NO_UPDATE_PARTITION P s1 w)
      | Some part \<Rightarrow>
          (case esp_partition_erase_range P part 0 (partition_size P part w) w of
             (err, w1) \<Rightarrow>
               if err \<noteq> ESP_OK
               then Some (abort_return OTA_RESPONSE_ERROR_WRITING_FLASH P s1 w1)
               else
                 (case flash_from_psram P part (buffer_bytes s1) (buffer_size s1) 0 w1 of
                    None \<Rightarrow> None
                  | Some (err, w2) \<Rightarrow>
                      if err \<noteq> ESP_OK
                      then Some (abort_return OTA_RESPONSE_ERROR_WRITING_FLASH P s1 w2)
                      else
                        (case verify_flash P part (buffer_bytes s1) (buffer_size s1) 0 w2 of
                           None \<Rightarrow> None
                         | Some (ok, w3) \<Rightarrow>
                             if \<not> ok
                             then Some (abort_return OTA_RESPONSE_ERROR_WRITING_FLASH P s1 w3)
                             else
                               (case esp_ota_set_boot_partition P (Some part) w3 of
                                  (err, w4) \<Rightarrow>
                                    if err \<noteq> ESP_OK
                                    then Some (abort_return OTA_RESPONSE_ERROR_UPDATE_END P s1 w4)
                                    else Some (abort_return OTA_RESPONSE_OK P s1 w4))))))"

text \<open>The mapping of a failed commit in standard mode, lines 219-225.\<close>
definition end_error :: "esp_err \<Rightarrow> OTAResponseTypes" where
  "end_error err =
     (if err = ESP_ERR_OTA_VALIDATE_FAILED then OTA_RESPONSE_ERROR_UPDATE_END
      else if err = ESP_ERR_FLASH_OP_TIMEOUT \<or> err = ESP_ERR_FLASH_OP_FAIL
      then OTA_RESPONSE_ERROR_WRITING_FLASH
      else OTA_RESPONSE_ERROR_UNKNOWN)"

text \<open>Standard mode, lines 210-225.\<close>
definition end_direct ::
  "'w platform \<Rightarrow> IDFOTABackend \<Rightarrow> 'w \<Rightarrow> OTAResponseTypes \<times> IDFOTABackend \<times> 'w" where
  "end_direct P s w =
     (case esp_ota_end P (update_handle s) w of
        (err, w1) \<Rightarrow>
          let s1 = s\<lparr>update_handle := 0\<rparr> in
          if err = ESP_OK then
            (case esp_ota_set_boot_partition P (partition_ptr s1) w1 of
               (err, w2) \<Rightarrow>
                 if err = ESP_OK then (OTA_RESPONSE_OK, s1, w2)
                 else (end_error err, s1, w2))
          else (end_error err, s1, w1))"

text \<open>\<^verbatim>\<open>IDFOTABackend::end\<close>, lines 129-226. \<open>Some\<close> is a call that returns; the call
  returns nothing in PSRAM mode when a loop over the buffer never ends.\<close>
definition IDFOTABackend_end ::
  "'w platform \<Rightarrow> IDFOTABackend \<Rightarrow> 'w \<Rightarrow> (OTAResponseTypes \<times> IDFOTABackend \<times> 'w) option" where
  "IDFOTABackend_end P s w =
     (let s0 = (if md5_set s then s\<lparr>md5 := md5_calculate (md5_hash P) (md5 s)\<rparr> else s) in
      if md5_set s0 \<and> \<not> equals_hex (md5 s0) (expected_bin_md5 s0)
      then Some (abort_return OTA_RESPONSE_ERROR_MD5_MISMATCH P s0 w)
      else if use_psram s0 then end_psram P s0 w
      else Some (end_direct P s0 w))"

subsection \<open>A session\<close>

text \<open>The caller's sequence of \<open>write\<close> calls, one per chunk, with the response of each.\<close>
fun write_chunks ::
  "'w platform \<Rightarrow> IDFOTABackend \<Rightarrow> 'w \<Rightarrow> u8 list list
     \<Rightarrow> OTAResponseTypes list \<times> IDFOTABackend \<times> 'w" where
  "write_chunks P s w [] = ([], s, w)"
| "write_chunks P s w (c # cs) =
     (case IDFOTABackend_write P s w c of
        (r, s1, w1) \<Rightarrow>
          (case write_chunks P s1 w1 cs of (rs, s2, w2) \<Rightarrow> (r # rs, s2, w2)))"

text \<open>A session up to \<open>end\<close>: \<open>begin\<close> and the writes, with the response of each call.\<close>
definition session ::
  "'w platform \<Rightarrow> IDFOTABackend \<Rightarrow> 'w \<Rightarrow> nat \<Rightarrow> u8 list list
     \<Rightarrow> OTAResponseTypes \<times> OTAResponseTypes list \<times> IDFOTABackend \<times> 'w" where
  "session P s w S cs =
     (case IDFOTABackend_begin P s w S of
        (r, s1, w1) \<Rightarrow>
          (case write_chunks P s1 w1 cs of (rs, s2, w2) \<Rightarrow> (r, rs, s2, w2)))"

section \<open>A reference platform\<close>

text \<open>
  Modelled from the spec: the storage layer is ESP-IDF, which is not part of the repository.
  The specification (4.5, Flash Partition Access) describes it as: find a partition by role
  or label, erase a byte range, write a byte range, read a byte range, designate a partition
  as the next boot target; a partition is a named, fixed-size, erase-before-write region.
  The platform below follows that description and the documented results of the ESP-IDF
  calls. It is used where a statement needs the contents of the flash, and as the concrete
  platform of examples. A script of injected results stands for the failures of the
  hardware: each fallible call takes the next entry, and anything but \<open>ESP_OK\<close> makes the
  call fail with that code and no effect.
\<close>

record flash_partition =
  p_type :: esp_partition_type
  p_subtype :: esp_partition_subtype
  p_label :: string
  p_size :: nat

record sim_world =
  table :: "flash_partition list"
  flash :: "part_ref \<Rightarrow> u8 list"
  running :: part_ref
  boot :: part_ref
  psram_free :: nat
  psram_blocks :: "(nat \<times> nat) list"
  bad_frees :: nat
  ota_ops :: "(ota_handle \<times> part_ref \<times> nat) list"
  wdt_timeout_ms :: nat
  wdt_resets :: nat
  faults :: "esp_err list"

text \<open>Modelled from the spec: the next injected result; an empty script injects none.\<close>
definition next_fault :: "sim_world \<Rightarrow> esp_err \<times> sim_world" where
  "next_fault w = (case faults w of [] \<Rightarrow> (ESP_OK, w) | e # es \<Rightarrow> (e, w\<lparr>faults := es\<rparr>))"

text \<open>Modelled from the spec: a 16-byte checksum that stands for MD5 on this platform.\<close>
definition sim_md5 :: "u8 list \<Rightarrow> u8 list" where
  "sim_md5 bs = replicate 15 0 @ [sum_list bs]"

text \<open>Modelled from the spec: find-partition-by-role(role, optional label), the first entry
  of the table that matches.\<close>
definition part_matches ::
  "esp_partition_type \<Rightarrow> esp_partition_subtype \<Rightarrow> string option \<Rightarrow> flash_partition \<Rightarrow> bool" where
  "part_matches t st lbl p =
     (p_type p = t \<and> (st = ESP_PARTITION_SUBTYPE_ANY \<or> p_subtype p = st)
      \<and> (case lbl of None \<Rightarrow> True | Some l \<Rightarrow> p_label p = l))"

definition sim_find_first ::
  "esp_partition_type \<Rightarrow> esp_partition_subtype \<Rightarrow> string option \<Rightarrow> sim_world
     \<Rightarrow> part_ref option" where
  "sim_find_first t st lbl w =
     List.find (\<lambda>i. part_matches t st lbl (table w ! i)) [0..<length (table w)]"

text \<open>Modelled from the spec: the next inactive boot slot, with two OTA slots: the slot that
  is not running.\<close>
definition sim_next_update :: "sim_world \<Rightarrow> part_ref option" where
  "sim_next_update w =
     (if running w < length (table w)
         \<and> p_subtype (table w ! running w) = ESP_PARTITION_SUBTYPE_APP_OTA_0
      then sim_find_first ESP_PARTITION_TYPE_APP ESP_PARTITION_SUBTYPE_APP_OTA_1 None w
      else sim_find_first ESP_PARTITION_TYPE_APP ESP_PARTITION_SUBTYPE_APP_OTA_0 None w)"

definition sim_partition_size :: "part_ref \<Rightarrow> sim_world \<Rightarrow> nat" where
  "sim_partition_size part w = p_size (table w ! part)"

text \<open>Modelled from the spec: erase(reference, offset, length); an erased byte is 0xFF.\<close>
definition sim_erase_range :: "part_ref \<Rightarrow> nat \<Rightarrow> nat \<Rightarrow> sim_world \<Rightarrow> esp_err \<times> sim_world" where
  "sim_erase_range part off len w =
     (case next_fault w of
        (e, w1) \<Rightarrow>
          if e \<noteq> ESP_OK then (e, w1)
          else if length (table w1) \<le> part then (ESP_ERR_INVALID_ARG, w1)
          else if p_size (table w1 ! part) < off + len then (ESP_ERR_INVALID_SIZE, w1)
          else
            (ESP_OK,
             w1\<lparr>flash := (flash w1)
                   (part := take off (flash w1 part) @ replicate len 255
                            @ drop (off + len) (flash w1 part))\<rparr>))"

text \<open>Modelled from the spec: write(reference, offset, buffer, length) on an
  erase-before-write region: a write can only clear bits, so the stored byte is the old
  byte AND the written one.\<close>
definition sim_write :: "part_ref \<Rightarrow> nat \<Rightarrow> u8 list \<Rightarrow> sim_world \<Rightarrow> esp_err \<times> sim_world" where
  "sim_write part off data w =
     (case next_fault w of
        (e, w1) \<Rightarrow>
          if e \<noteq> ESP_OK then (e, w1)
          else if length (table w1) \<le> part then (ESP_ERR_INVALID_ARG, w1)
          else if p_size (table w1 ! part) < off + length data then (ESP_ERR_INVALID_SIZE, w1)
          else
            (ESP_OK,
             w1\<lparr>flash := (flash w1)
                   (part := take off (flash w1 part)
                            @ map2 (AND) (take (length data) (drop off (flash w1 part))) data
                            @ drop (off + length data) (flash w1 part))\<rparr>))"

text \<open>Modelled from the spec: read(reference, offset, buffer, length).\<close>
definition sim_read ::
  "part_ref \<Rightarrow> nat \<Rightarrow> nat \<Rightarrow> sim_world \<Rightarrow> esp_err \<times> u8 list \<times> sim_world" where
  "sim_read part off len w =
     (case next_fault w of
        (e, w1) \<Rightarrow>
          if e \<noteq> ESP_OK then (e, [], w1)
          else if length (table w1) \<le> part then (ESP_ERR_INVALID_ARG, [], w1)
          else if p_size (table w1 ! part) < off + len then (ESP_ERR_INVALID_SIZE, [], w1)
          else (ESP_OK, take len (drop off (flash w1 part)), w1))"

text \<open>Modelled from the spec: set-boot-target(reference).\<close>
definition sim_set_boot :: "part_ref option \<Rightarrow> sim_world \<Rightarrow> esp_err \<times> sim_world" where
  "sim_set_boot p w =
     (case next_fault w of
        (e, w1) \<Rightarrow>
          if e \<noteq> ESP_OK then (e, w1)
          else
            (case p of
               None \<Rightarrow> (ESP_ERR_INVALID_ARG, w1)
             | Some part \<Rightarrow>
                 if length (table w1) \<le> part then (ESP_ERR_INVALID_ARG, w1)
                 else if p_type (table w1 ! part) \<noteq> ESP_PARTITION_TYPE_APP
                 then (ESP_ERR_INVALID_ARG, w1)
                 else (ESP_OK, w1\<lparr>boot := part\<rparr>)))"

text \<open>Modelled from the spec: a handle that no open transaction uses, never 0.\<close>
definition fresh_handle :: "sim_world \<Rightarrow> ota_handle" where
  "fresh_handle w = Suc (foldr max (map fst (ota_ops w)) 0)"

text \<open>Modelled from the spec: opening a flash write transaction sized to the declared image
  size. An image larger than the partition is a size failure; the partition is erased; the
  transaction starts at offset 0. A failed call leaves the handle variable as it was.\<close>
definition sim_ota_begin ::
  "part_ref \<Rightarrow> nat \<Rightarrow> ota_handle \<Rightarrow> sim_world \<Rightarrow> esp_err \<times> ota_handle \<times> sim_world" where
  "sim_ota_begin part image_size h w =
     (case next_fault w of
        (e, w1) \<Rightarrow>
          if e \<noteq> ESP_OK then (e, h, w1)
          else if length (table w1) \<le> part then (ESP_ERR_INVALID_ARG, h, w1)
          else if p_size (table w1 ! part) < image_size then (ESP_ERR_INVALID_SIZE, h, w1)
          else
            (ESP_OK, fresh_handle w1,
             w1\<lparr>flash := (flash w1)(part := replicate (p_size (table w1 ! part)) 255),
                ota_ops := (fresh_handle w1, part, 0) # ota_ops w1\<rparr>))"

text \<open>Modelled from the spec: writing a chunk to the open transaction at the implicit next
  offset.\<close>
definition sim_ota_write :: "ota_handle \<Rightarrow> u8 list \<Rightarrow> sim_world \<Rightarrow> esp_err \<times> sim_world" where
  "sim_ota_write h data w =
     (case next_fault w of
        (e, w1) \<Rightarrow>
          if e \<noteq> ESP_OK then (e, w1)
          else
            (case map_of (ota_ops w1) h of
               None \<Rightarrow> (ESP_ERR_INVALID_ARG, w1)
             | Some (part, off) \<Rightarrow>
                 if p_size (table w1 ! part) < off + length data
                 then (ESP_ERR_INVALID_SIZE, w1)
                 else
                   (ESP_OK,
                    w1\<lparr>flash := (flash w1)
                          (part := take off (flash w1 part)
                                   @ map2 (AND) (take (length data) (drop off (flash w1 part)))
                                       data
                                   @ drop (off + length data) (flash w1 part)),
                       ota_ops := (h, part, off + length data)
                                  # filter (\<lambda>x. fst x \<noteq> h) (ota_ops w1)\<rparr>)))"

text \<open>Modelled from the spec: closing the transaction. The handle is released whatever the
  result; a transaction that was never written to is an argument error.\<close>
definition sim_ota_end :: "ota_handle \<Rightarrow> sim_world \<Rightarrow> esp_err \<times> sim_world" where
  "sim_ota_end h w =
     (case map_of (ota_ops w) h of
        None \<Rightarrow> (ESP_ERR_NOT_FOUND, w)
      | Some (part, off) \<Rightarrow>
          (case next_fault (w\<lparr>ota_ops := filter (\<lambda>x. fst x \<noteq> h) (ota_ops w)\<rparr>) of
             (e, w1) \<Rightarrow>
               if e \<noteq> ESP_OK then (e, w1)
               else if off = 0 then (ESP_ERR_INVALID_ARG, w1)
               else (ESP_OK, w1)))"

text \<open>Modelled from the spec: discarding the transaction.\<close>
definition sim_ota_abort :: "ota_handle \<Rightarrow> sim_world \<Rightarrow> sim_world" where
  "sim_ota_abort h w = w\<lparr>ota_ops := filter (\<lambda>x. fst x \<noteq> h) (ota_ops w)\<rparr>"

text \<open>Modelled from the spec: the auxiliary pool. An allocation of no bytes, or of more than
  the pool has free, returns a null pointer; the block is zero-filled here.\<close>
definition sim_malloc :: "nat \<Rightarrow> sim_world \<Rightarrow> (nat \<times> u8 list) option \<times> sim_world" where
  "sim_malloc n w =
     (case next_fault w of
        (e, w1) \<Rightarrow>
          if e \<noteq> ESP_OK then (None, w1)
          else if n = 0 \<or> psram_free w1 < n then (None, w1)
          else
            (let p = Suc (foldr max (map fst (psram_blocks w1)) 0) in
             (Some (p, replicate n 0),
              w1\<lparr>psram_free := psram_free w1 - n,
                 psram_blocks := (p, n) # psram_blocks w1\<rparr>)))"

text \<open>Modelled from the spec: releasing a block; releasing a pointer that is not a live
  block is counted as a fault of the heap.\<close>
definition sim_free :: "nat \<Rightarrow> sim_world \<Rightarrow> sim_world" where
  "sim_free p w =
     (case map_of (psram_blocks w) p of
        None \<Rightarrow> w\<lparr>bad_frees := Suc (bad_frees w)\<rparr>
      | Some n \<Rightarrow>
          w\<lparr>psram_free := psram_free w + n,
            psram_blocks := filter (\<lambda>x. fst x \<noteq> p) (psram_blocks w)\<rparr>)"

text \<open>Modelled from the spec: the reference platform, with a watchdog timeout of 5 seconds
  in the build.\<close>
definition sim :: "sim_world platform" where
  "sim =
     \<lparr> CONFIG_ESP_TASK_WDT_TIMEOUT_S = 5,
       md5_hash = sim_md5,
       heap_caps_get_free_size = psram_free,
       heap_caps_malloc = sim_malloc,
       heap_caps_free = sim_free,
       esp_task_wdt_reconfigure = (\<lambda>ms w. w\<lparr>wdt_timeout_ms := ms\<rparr>),
       esp_task_wdt_reset = (\<lambda>w. w\<lparr>wdt_resets := Suc (wdt_resets w)\<rparr>),
       esp_ota_get_next_update_partition = sim_next_update,
       esp_ota_begin = sim_ota_begin,
       esp_ota_write = sim_ota_write,
       esp_ota_end = sim_ota_end,
       esp_ota_abort = sim_ota_abort,
       esp_ota_set_boot_partition = sim_set_boot,
       esp_partition_find_first = sim_find_first,
       partition_size = sim_partition_size,
       esp_partition_erase_range = sim_erase_range,
       esp_partition_write = sim_write,
       esp_partition_read = sim_read \<rparr>"

text \<open>Modelled from the spec: a close of the transaction that follows the rule of the
  injected results to the letter: a failed close has no effect, so the transaction stays
  open. The source does not depend on what a failed \<^verbatim>\<open>esp_ota_end\<close> leaves; this is the
  storage layer on which the difference shows.\<close>
definition sim_ota_end_keep :: "ota_handle \<Rightarrow> sim_world \<Rightarrow> esp_err \<times> sim_world" where
  "sim_ota_end_keep h w =
     (case map_of (ota_ops w) h of
        None \<Rightarrow> (ESP_ERR_NOT_FOUND, w)
      | Some (part, off) \<Rightarrow>
          (case next_fault w of
             (e, w1) \<Rightarrow>
               if e \<noteq> ESP_OK then (e, w1)
               else if off = 0 then (ESP_ERR_INVALID_ARG, w1)
               else (ESP_OK, w1\<lparr>ota_ops := filter (\<lambda>x. fst x \<noteq> h) (ota_ops w1)\<rparr>)))"

definition sim_keep :: "sim_world platform" where
  "sim_keep = sim\<lparr>esp_ota_end := sim_ota_end_keep\<rparr>"

text \<open>A device with a factory partition and two OTA slots of 8 bytes each, running from
  \<open>ota_0\<close>, with 64 bytes of PSRAM free and no injected failure.\<close>
definition device :: sim_world where
  "device =
     \<lparr> table =
         [\<lparr>p_type = ESP_PARTITION_TYPE_APP, p_subtype = ESP_PARTITION_SUBTYPE_APP_FACTORY,
           p_label = ''factory'', p_size = 8\<rparr>,
          \<lparr>p_type = ESP_PARTITION_TYPE_APP, p_subtype = ESP_PARTITION_SUBTYPE_APP_OTA_0,
           p_label = ''ota_0'', p_size = 8\<rparr>,
          \<lparr>p_type = ESP_PARTITION_TYPE_APP, p_subtype = ESP_PARTITION_SUBTYPE_APP_OTA_1,
           p_label = ''ota_1'', p_size = 8\<rparr>],
       flash = (\<lambda>p. replicate 8 0),
       running = 1, boot = 1,
       psram_free = 64, psram_blocks = [], bad_frees = 0,
       ota_ops = [], wdt_timeout_ms = 5000, wdt_resets = 0,
       faults = [] \<rparr>"

text \<open>Two sessions on that device, each as \<open>begin(3)\<close> and the writes of the chunks
  \<open>[1, 2]\<close> and \<open>[3]\<close> leave the backend and the platform: one in standard mode, one in
  PSRAM mode.\<close>
definition direct_session :: "IDFOTABackend \<times> sim_world" where
  "direct_session = snd (snd (session sim (make_ota_backend False) device 3 [[1, 2], [3]]))"

definition psram_session :: "IDFOTABackend \<times> sim_world" where
  "psram_session = snd (snd (session sim (make_ota_backend True) device 3 [[1, 2], [3]]))"

section \<open>Properties\<close>

subsection \<open>Evaluation\<close>

lemmas backend_defs =
  IDFOTABackend_begin_def IDFOTABackend_write_def IDFOTABackend_end_def IDFOTABackend_abort_def
  end_psram_def end_direct_def abort_return_def target_lookup_def begin_error_def write_error_def
  end_error_def buffer_bytes_def memcpy_at_def size_t_add_def md5_init_def md5_add_def
  md5_calculate_def equals_hex_def hex_digit_def new_backend_def make_ota_backend_def
  set_psram_mode_def set_update_md5_def set_target_partition_def CHUNK_SIZE_def session_def

lemmas sim_defs =
  sim_def device_def next_fault_def sim_md5_def part_matches_def sim_find_first_def
  sim_next_update_def sim_partition_size_def sim_erase_range_def sim_write_def sim_read_def
  sim_set_boot_def fresh_handle_def sim_ota_begin_def sim_ota_write_def sim_ota_end_def
  sim_ota_abort_def sim_malloc_def sim_free_def

lemma replicate_num: "replicate (numeral k) x = x # replicate (pred_numeral k) x"
  by (simp add: numeral_eq_Suc)

lemmas eval_simps = backend_defs sim_defs upt_rec replicate_num

lemma direct_session_eval:
  "fst direct_session =
     \<lparr> update_handle = 1, partition_ptr = Some 2,
       md5 = \<lparr> fed = [1, 2, 3], digest = [] \<rparr>,
       expected_bin_md5 = [], md5_set = False, use_psram = False,
       psram_buffer = None, buffer_size = 0, bytes_received = 0,
       target_partition_label = [] \<rparr>"
  "ota_ops (snd direct_session) = [(1, 2, 3)]"
  "flash (snd direct_session) 2 = [1, 2, 3, 255, 255, 255, 255, 255]"
  "boot (snd direct_session) = 1"
  "faults (snd direct_session) = []"
  by (simp_all add: direct_session_def eval_simps)

lemma psram_session_eval:
  "fst psram_session =
     \<lparr> update_handle = 0, partition_ptr = None,
       md5 = \<lparr> fed = [1, 2, 3], digest = [] \<rparr>,
       expected_bin_md5 = [], md5_set = False, use_psram = True,
       psram_buffer = Some (1, [1, 2, 3]), buffer_size = 3, bytes_received = 3,
       target_partition_label = [] \<rparr>"
  "psram_blocks (snd psram_session) = [(1, 3)]"
  "flash (snd psram_session) 1 = [0, 0, 0, 0, 0, 0, 0, 0]"
  "boot (snd psram_session) = 1"
  "faults (snd psram_session) = []"
  by (simp_all add: psram_session_def eval_simps)

subsection \<open>The digest comparison\<close>

text \<open>The comparison reads a hexadecimal digit in either case.\<close>
lemma hex_digit_case:
  "hex_digit CHR ''A'' = hex_digit CHR ''a''" "hex_digit CHR ''B'' = hex_digit CHR ''b''"
  "hex_digit CHR ''C'' = hex_digit CHR ''c''" "hex_digit CHR ''D'' = hex_digit CHR ''d''"
  "hex_digit CHR ''E'' = hex_digit CHR ''e''" "hex_digit CHR ''F'' = hex_digit CHR ''f''"
  by (simp_all add: hex_digit_def)

lemma equals_hex_example:
  "equals_hex \<lparr>fed = [], digest = [0, 0, 0, 0, 0, 0, 0, 0, 0, 0, 0, 0, 0, 0, 0, 171]\<rparr>
     ''000000000000000000000000000000aB''"
  by (simp add: equals_hex_def hex_digit_def)

subsection \<open>abort\<close>

lemma abort_fields:
  "psram_buffer (fst (IDFOTABackend_abort P s w)) = None \<and>
   update_handle (fst (IDFOTABackend_abort P s w)) = 0 \<and>
   bytes_received (fst (IDFOTABackend_abort P s w)) = 0 \<and>
   buffer_size (fst (IDFOTABackend_abort P s w)) = 0"
  by (simp add: IDFOTABackend_abort_def split: option.splits prod.splits)


text \<open>On an object that holds nothing, \<open>abort\<close> makes no call and changes nothing.\<close>
lemma abort_closed:
  assumes "psram_buffer s = None" "update_handle s = 0" "bytes_received s = 0" "buffer_size s = 0"
  shows "IDFOTABackend_abort P s w = (s, w)"
  using assms by (simp add: IDFOTABackend_abort_def)

lemma abort_abort:
  "IDFOTABackend_abort P (fst (IDFOTABackend_abort P s w)) (snd (IDFOTABackend_abort P s w))
     = IDFOTABackend_abort P s w"
  by (simp add: abort_closed abort_fields)

text \<open>The calls of \<open>abort\<close> are \<open>heap_caps_free\<close> and \<open>esp_ota_abort\<close>: what neither of them
  changes, \<open>abort\<close> does not change.\<close>
lemma abort_obs:
  assumes "\<forall>q v. obs (heap_caps_free P q v) = obs v"
      and "\<forall>h v. obs (esp_ota_abort P h v) = obs v"
  shows "obs (snd (IDFOTABackend_abort P s w)) = obs w"
  using assms by (simp add: IDFOTABackend_abort_def split: option.splits prod.splits)

lemma abort_return_eq:
  "abort_return r P s w = (r, IDFOTABackend_abort P s w)"
  by (simp add: abort_return_def split: prod.splits)

text \<open>
  Claim C8. \<open>abort\<close> is idempotent and total. It is a total function, so it cannot fail.
  Called any number of times in a row (\<open>Suc n\<close> times) it leaves the object and the
  platform as one call does: from the second call on it makes no call to the platform, so
  nothing is released twice. One call releases the buffer, if there is one, once, and
  discards the transaction, if there is one, once. After it the buffer pointer is null, the
  handle is 0, bytes-received and buffer-size are 0. On an object that never began a
  session it changes nothing.
\<close>
theorem abort_idempotent:
  "((\<lambda>(s, w). IDFOTABackend_abort P s w) ^^ Suc n) (s, w) = IDFOTABackend_abort P s w
   \<and> snd (IDFOTABackend_abort P s w)
       = (if update_handle s \<noteq> 0 then esp_ota_abort P (update_handle s) else id)
           (case psram_buffer s of Some (p, b) \<Rightarrow> heap_caps_free P p w | None \<Rightarrow> w)
   \<and> psram_buffer (fst (IDFOTABackend_abort P s w)) = None
   \<and> update_handle (fst (IDFOTABackend_abort P s w)) = 0
   \<and> bytes_received (fst (IDFOTABackend_abort P s w)) = 0
   \<and> buffer_size (fst (IDFOTABackend_abort P s w)) = 0
   \<and> IDFOTABackend_abort P (make_ota_backend m) w = (make_ota_backend m, w)"
proof -
  have "((\<lambda>(s, w). IDFOTABackend_abort P s w) ^^ Suc n) (s, w) = IDFOTABackend_abort P s w"
  proof (induction n)
    case 0
    show ?case by simp
  next
    case (Suc n)
    have "((\<lambda>(s, w). IDFOTABackend_abort P s w) ^^ Suc (Suc n)) (s, w)
          = (\<lambda>(s, w). IDFOTABackend_abort P s w) (IDFOTABackend_abort P s w)"
      using Suc by simp
    also have "\<dots> = IDFOTABackend_abort P s w"
      using abort_abort [of P s w] by (simp add: case_prod_beta)
    finally show ?case .
  qed
  moreover have "IDFOTABackend_abort P (make_ota_backend m) w = (make_ota_backend m, w)"
    by (rule abort_closed)
       (simp_all add: make_ota_backend_def set_psram_mode_def new_backend_def)
  moreover have "snd (IDFOTABackend_abort P s w)
       = (if update_handle s \<noteq> 0 then esp_ota_abort P (update_handle s) else id)
           (case psram_buffer s of Some (p, b) \<Rightarrow> heap_caps_free P p w | None \<Rightarrow> w)"
    by (simp add: IDFOTABackend_abort_def split: option.splits prod.splits)
  ultimately show ?thesis
    by (simp add: abort_fields)
qed

text \<open>Claim C8 on the PSRAM session of the device: two calls in a row are one call, the
  block is released (no block is live) and the heap has seen no release of a dead
  pointer.\<close>
theorem abort_idempotent_witness:
  "((\<lambda>(s, w). IDFOTABackend_abort sim s w) ^^ Suc 1) (fst psram_session, snd psram_session)
     = IDFOTABackend_abort sim (fst psram_session) (snd psram_session)
   \<and> psram_buffer (fst psram_session) = Some (1, [1, 2, 3])
   \<and> psram_buffer (fst (IDFOTABackend_abort sim (fst psram_session) (snd psram_session))) = None
   \<and> psram_blocks (snd (IDFOTABackend_abort sim (fst psram_session) (snd psram_session))) = []
   \<and> bad_frees (snd (IDFOTABackend_abort sim (fst psram_session) (snd psram_session))) = 0"
proof -
  have "psram_blocks (snd (IDFOTABackend_abort sim (fst psram_session) (snd psram_session))) = []
      \<and> bad_frees (snd (IDFOTABackend_abort sim (fst psram_session) (snd psram_session))) = 0"
    by (simp add: psram_session_def eval_simps)
  with abort_idempotent [where P = sim and n = 1 and s = "fst psram_session"
      and w = "snd psram_session"]
  show ?thesis
    by (simp add: psram_session_eval)
qed

subsection \<open>write\<close>

lemma size_t_add_small: "a + b < 2 ^ 32 \<Longrightarrow> size_t_add a b = a + b"
  by (simp add: size_t_add_def)

lemma memcpy_at_length:
  "off + length data \<le> length buf \<Longrightarrow> length (memcpy_at buf off data) = length buf"
  by (simp add: memcpy_at_def)

lemma memcpy_at_before:
  "off \<le> length buf \<Longrightarrow> take off (memcpy_at buf off data) = take off buf"
  by (simp add: memcpy_at_def)

lemma memcpy_at_chunk:
  "off \<le> length buf \<Longrightarrow> take (length data) (drop off (memcpy_at buf off data)) = data"
  by (simp add: memcpy_at_def)

lemma write_psram_counters:
  "use_psram s \<Longrightarrow> bytes_received s \<le> buffer_size s \<Longrightarrow>
   bytes_received (fst (snd (IDFOTABackend_write P s w data))) \<le> buffer_size s
   \<and> buffer_size (fst (snd (IDFOTABackend_write P s w data))) = buffer_size s
   \<and> use_psram (fst (snd (IDFOTABackend_write P s w data)))"
  by (simp add: IDFOTABackend_write_def Let_def)

lemma write_chunks_counters:
  "use_psram s \<Longrightarrow> bytes_received s \<le> buffer_size s \<Longrightarrow>
   bytes_received (fst (snd (write_chunks P s w cs))) \<le> buffer_size s
   \<and> buffer_size (fst (snd (write_chunks P s w cs))) = buffer_size s"
proof (induction cs arbitrary: s w)
  case Nil
  then show ?case by simp
next
  case (Cons c cs)
  obtain r s1 w1 where w: "IDFOTABackend_write P s w c = (r, s1, w1)"
    by (cases "IDFOTABackend_write P s w c") auto
  have s1: "bytes_received s1 \<le> buffer_size s" "buffer_size s1 = buffer_size s" "use_psram s1"
    using write_psram_counters [OF Cons.prems, of P w c] w by simp_all
  from Cons.IH [of s1 w1] s1 w show ?case
    by (simp add: case_prod_beta)
qed


lemma write_chunks_fed_direct:
  "\<not> use_psram s \<Longrightarrow>
   fed (md5 (fst (snd (write_chunks P s w cs)))) = fed (md5 s) @ concat cs"
proof (induction cs arbitrary: s w)
  case Nil
  show ?case by simp
next
  case (Cons c cs)
  obtain r s1 w1 where w: "IDFOTABackend_write P s w c = (r, s1, w1)"
    by (cases "IDFOTABackend_write P s w c") auto
  with Cons.prems have "\<not> use_psram s1" "fed (md5 s1) = fed (md5 s) @ c"
    by (auto simp add: IDFOTABackend_write_def Let_def md5_add_def split: prod.splits if_splits)
  with Cons.IH [of s1 w1] w show ?case
    by (simp add: case_prod_beta)
qed

lemma write_chunks_fed_psram:
  "use_psram s \<Longrightarrow>
   fed (md5 (fst (snd (write_chunks P s w cs))))
     = fed (md5 s)
       @ concat (map snd (filter (\<lambda>(r, c). r = OTA_RESPONSE_OK)
                            (zip (fst (write_chunks P s w cs)) cs)))"
proof (induction cs arbitrary: s w)
  case Nil
  show ?case by simp
next
  case (Cons c cs)
  obtain r s1 w1 where w: "IDFOTABackend_write P s w c = (r, s1, w1)"
    by (cases "IDFOTABackend_write P s w c") auto
  with Cons.prems have "use_psram s1"
    "fed (md5 s1) = (if r = OTA_RESPONSE_OK then fed (md5 s) @ c else fed (md5 s))"
    by (auto simp add: IDFOTABackend_write_def Let_def md5_add_def split: prod.splits if_splits)
  with Cons.IH [of s1 w1] w show ?case
    by (simp add: case_prod_beta)
qed

text \<open>A successful \<open>begin\<close> in PSRAM mode opens the session: the buffer is allocated,
  buffer-size is the declared image size and bytes-received is 0. The block has the
  declared size when the allocator returns blocks of the size asked for.\<close>
lemma begin_psram_open:
  assumes "use_psram s" "IDFOTABackend_begin P s w S = (OTA_RESPONSE_OK, s1, w1)"
  shows "use_psram s1 \<and> buffer_size s1 = S \<and> bytes_received s1 = 0
         \<and> psram_buffer s1 = fst (heap_caps_malloc P S w) \<and> psram_buffer s1 \<noteq> None"
  using assms
  by (auto simp add: IDFOTABackend_begin_def Let_def split: prod.splits if_splits)

text \<open>
  Claim C6. In an open PSRAM-mode session (the buffer is allocated, its block has
  \<open>buffer_size\<close> bytes, and bytes-received is within it), for a chunk whose length added to
  bytes-received does not wrap around \<^verbatim>\<open>size_t\<close> (the chunk and the buffer are two objects
  in one 32-bit address space): if bytes-received plus the length exceeds the buffer size,
  \<open>write\<close> returns the unknown-error code and the object and the platform are unchanged (so
  bytes-received, the buffer and the digest accumulator are); otherwise it returns Ok, the
  chunk is copied at the offset bytes-received (the block keeps its length, the bytes before
  the offset are untouched, the bytes at the offset are the chunk), bytes-received advances
  by the length and the chunk is fed to the digest. Consequently, whatever chunks are
  written afterwards, bytes-received never exceeds the buffer size; and in every PSRAM-mode
  session, whatever chunks are written after a successful \<open>begin(S0)\<close>, bytes-received
  never exceeds the declared image size \<open>S0\<close>.
\<close>
theorem psram_write_guard:
  assumes "use_psram s"
      and "psram_buffer s = Some (p, b)"
      and "length b = buffer_size s"
      and "bytes_received s \<le> buffer_size s"
      and "bytes_received s + length data < 2 ^ 32"
  shows "(if buffer_size s < bytes_received s + length data
          then IDFOTABackend_write P s w data = (OTA_RESPONSE_ERROR_UNKNOWN, s, w)
          else IDFOTABackend_write P s w data =
                 (OTA_RESPONSE_OK,
                  s\<lparr>psram_buffer := Some (p, memcpy_at b (bytes_received s) data),
                    bytes_received := bytes_received s + length data,
                    md5 := md5_add (md5 s) data\<rparr>,
                  w)
               \<and> length (memcpy_at b (bytes_received s) data) = buffer_size s
               \<and> take (bytes_received s) (memcpy_at b (bytes_received s) data)
                   = take (bytes_received s) b
               \<and> take (length data) (drop (bytes_received s) (memcpy_at b (bytes_received s) data))
                   = data)
         \<and> bytes_received (fst (snd (write_chunks P s w cs))) \<le> buffer_size s
         \<and> buffer_size (fst (snd (write_chunks P s w cs))) = buffer_size s
         \<and> (\<forall>s0 w0 S0 ds.
               use_psram s0 \<and> fst (IDFOTABackend_begin P s0 w0 S0) = OTA_RESPONSE_OK \<longrightarrow>
               bytes_received
                 (fst (snd (write_chunks P (fst (snd (IDFOTABackend_begin P s0 w0 S0)))
                              (snd (snd (IDFOTABackend_begin P s0 w0 S0))) ds))) \<le> S0)"
proof -
  have "bytes_received (fst (snd (write_chunks P s w cs))) \<le> buffer_size s
        \<and> buffer_size (fst (snd (write_chunks P s w cs))) = buffer_size s"
    using assms(1,4) by (rule write_chunks_counters)
  moreover have "size_t_add (bytes_received s) (length data) = bytes_received s + length data"
    using assms(5) by (rule size_t_add_small)
  moreover have "bytes_received
                 (fst (snd (write_chunks P (fst (snd (IDFOTABackend_begin P s0 w0 S0)))
                              (snd (snd (IDFOTABackend_begin P s0 w0 S0))) ds))) \<le> S0"
    if p0: "use_psram s0" and ok: "fst (IDFOTABackend_begin P s0 w0 S0) = OTA_RESPONSE_OK"
    for s0 w0 S0 ds
  proof -
    obtain s1 w1 where b: "IDFOTABackend_begin P s0 w0 S0 = (OTA_RESPONSE_OK, s1, w1)"
      using ok by (cases "IDFOTABackend_begin P s0 w0 S0") auto
    from begin_psram_open [OF p0 b]
    have "use_psram s1" "bytes_received s1 \<le> buffer_size s1" "buffer_size s1 = S0"
      by simp_all
    with write_chunks_counters [of s1 P w1 ds] show ?thesis
      by (simp add: b)
  qed
  ultimately show ?thesis
    using assms(1-4)
    by (simp add: IDFOTABackend_write_def memcpy_at_length memcpy_at_before memcpy_at_chunk)
qed

text \<open>Claim C6 on the PSRAM session of the device, whose buffer of 3 bytes is full: one
  more byte is refused and nothing changes.\<close>
theorem psram_write_guard_witness:
  "use_psram (fst psram_session)
   \<and> psram_buffer (fst psram_session) = Some (1, [1, 2, 3])
   \<and> buffer_size (fst psram_session) = 3
   \<and> bytes_received (fst psram_session) = 3
   \<and> IDFOTABackend_write sim (fst psram_session) (snd psram_session) [4]
       = (OTA_RESPONSE_ERROR_UNKNOWN, fst psram_session, snd psram_session)
   \<and> bytes_received (fst (snd (write_chunks sim (fst psram_session) (snd psram_session)
                                  [[4], [], [5, 6]]))) \<le> 3"
proof -
  have 1: "use_psram (fst psram_session)"
    and 2: "psram_buffer (fst psram_session) = Some (1, [1, 2, 3])"
    and 3: "length [1, 2, 3 :: u8] = buffer_size (fst psram_session)"
    and 4: "bytes_received (fst psram_session) \<le> buffer_size (fst psram_session)"
    and 5: "bytes_received (fst psram_session) + length [4 :: u8] < 2 ^ 32"
    and 6: "buffer_size (fst psram_session) < bytes_received (fst psram_session) + length [4 :: u8]"
    and 7: "buffer_size (fst psram_session) = 3" "bytes_received (fst psram_session) = 3"
    by (simp_all add: psram_session_eval)
  from psram_write_guard [OF 1 2 3 4 5, where P = sim and w = "snd psram_session"
      and cs = "[[4], [], [5, 6]]"] 6
  have "IDFOTABackend_write sim (fst psram_session) (snd psram_session) [4]
          = (OTA_RESPONSE_ERROR_UNKNOWN, fst psram_session, snd psram_session)
        \<and> bytes_received (fst (snd (write_chunks sim (fst psram_session) (snd psram_session)
                                  [[4], [], [5, 6]]))) \<le> buffer_size (fst psram_session)"
    by (simp only: if_True simp_thms)
  with 1 2 7 show ?thesis
    by (simp only: simp_thms)
qed

text \<open>
  Claim C10. In standard mode \<open>write\<close> feeds the chunk to the digest accumulator whatever
  \<^verbatim>\<open>esp_ota_write\<close> returned, also when the response is an error; in PSRAM mode the digest
  is fed exactly when the response is Ok.
\<close>
theorem write_digest_fed:
  "(\<not> use_psram s \<longrightarrow>
      md5 (fst (snd (IDFOTABackend_write P s w data))) = md5_add (md5 s) data
      \<and> fst (IDFOTABackend_write P s w data)
          = (if fst (esp_ota_write P (update_handle s) data w) = ESP_OK then OTA_RESPONSE_OK
             else write_error (fst (esp_ota_write P (update_handle s) data w))))
   \<and> (use_psram s \<longrightarrow>
      md5 (fst (snd (IDFOTABackend_write P s w data)))
        = (if fst (IDFOTABackend_write P s w data) = OTA_RESPONSE_OK
           then md5_add (md5 s) data else md5 s))"
  by (simp add: IDFOTABackend_write_def Let_def write_error_def split: prod.splits)

text \<open>Claim C10 on the standard-mode session of the device, with a flash failure injected:
  the write fails, the partition is unchanged and the digest has taken the byte.\<close>
theorem write_digest_fed_witness:
  "\<not> use_psram (fst direct_session)
   \<and> fst (esp_ota_write sim (update_handle (fst direct_session)) [9]
            ((snd direct_session)\<lparr>faults := [ESP_ERR_FLASH_OP_FAIL]\<rparr>)) = ESP_ERR_FLASH_OP_FAIL
   \<and> fst (IDFOTABackend_write sim (fst direct_session)
            ((snd direct_session)\<lparr>faults := [ESP_ERR_FLASH_OP_FAIL]\<rparr>) [9])
       = OTA_RESPONSE_ERROR_WRITING_FLASH
   \<and> fed (md5 (fst direct_session)) = [1, 2, 3]
   \<and> fed (md5 (fst (snd (IDFOTABackend_write sim (fst direct_session)
                      ((snd direct_session)\<lparr>faults := [ESP_ERR_FLASH_OP_FAIL]\<rparr>) [9]))))
       = [1, 2, 3, 9]
   \<and> flash (snd (snd (IDFOTABackend_write sim (fst direct_session)
                      ((snd direct_session)\<lparr>faults := [ESP_ERR_FLASH_OP_FAIL]\<rparr>) [9]))) 2
       = [1, 2, 3, 255, 255, 255, 255, 255]"
proof -
  have e: "fst (esp_ota_write sim (update_handle (fst direct_session)) [9]
            ((snd direct_session)\<lparr>faults := [ESP_ERR_FLASH_OP_FAIL]\<rparr>)) = ESP_ERR_FLASH_OP_FAIL"
    by (simp add: sim_def sim_ota_write_def next_fault_def)
  have f: "flash (snd (snd (IDFOTABackend_write sim (fst direct_session)
                      ((snd direct_session)\<lparr>faults := [ESP_ERR_FLASH_OP_FAIL]\<rparr>) [9]))) 2
       = [1, 2, 3, 255, 255, 255, 255, 255]"
    by (simp add: direct_session_eval IDFOTABackend_write_def sim_def sim_ota_write_def
          next_fault_def)
  from write_digest_fed [where s = "fst direct_session" and P = sim
      and w = "(snd direct_session)\<lparr>faults := [ESP_ERR_FLASH_OP_FAIL]\<rparr>" and data = "[9]"] e f
  show ?thesis
    by (simp add: direct_session_eval write_error_def md5_add_def)
qed

subsection \<open>begin\<close>

text \<open>
  Claim C5, amended. In PSRAM mode \<open>begin(S)\<close> returns the no-update-partition code when the
  pool reports zero bytes free (the guard "PSRAM not available" comes first), and the
  insufficient-space code when the pool reports some bytes free but fewer than \<open>S\<close>; in both
  cases the object and the platform are unchanged. When the pool has room and the
  allocation returns a null pointer, it returns the insufficient-space code. When it
  returns Ok, the buffer is the allocated block, buffer-size is \<open>S\<close>, bytes-received is 0,
  the digest accumulator is initialized, and the only call made to the platform is the
  allocation: the partition reference is as before and no partition is touched.
\<close>
theorem begin_psram_cases:
  assumes "use_psram s"
  shows "(heap_caps_get_free_size P w = 0 \<longrightarrow>
            IDFOTABackend_begin P s w S = (OTA_RESPONSE_ERROR_NO_UPDATE_PARTITION, s, w))
       \<and> (0 < heap_caps_get_free_size P w \<and> heap_caps_get_free_size P w < S \<longrightarrow>
            IDFOTABackend_begin P s w S = (OTA_RESPONSE_ERROR_ESP32_NOT_ENOUGH_SPACE, s, w))
       \<and> (0 < heap_caps_get_free_size P w \<and> S \<le> heap_caps_get_free_size P w
            \<and> fst (heap_caps_malloc P S w) = None \<longrightarrow>
            IDFOTABackend_begin P s w S
              = (OTA_RESPONSE_ERROR_ESP32_NOT_ENOUGH_SPACE, s\<lparr>psram_buffer := None\<rparr>,
                 snd (heap_caps_malloc P S w)))
       \<and> (fst (IDFOTABackend_begin P s w S) = OTA_RESPONSE_OK \<longrightarrow>
            IDFOTABackend_begin P s w S
              = (OTA_RESPONSE_OK,
                 s\<lparr>psram_buffer := fst (heap_caps_malloc P S w), buffer_size := S,
                   bytes_received := 0, md5 := md5_init (md5 s)\<rparr>,
                 snd (heap_caps_malloc P S w))
            \<and> fst (heap_caps_malloc P S w) \<noteq> None
            \<and> bytes_received (fst (snd (IDFOTABackend_begin P s w S))) = 0
            \<and> fed (md5 (fst (snd (IDFOTABackend_begin P s w S)))) = []
            \<and> partition_ptr (fst (snd (IDFOTABackend_begin P s w S))) = partition_ptr s)"
  using assms
  by (auto simp add: IDFOTABackend_begin_def Let_def md5_init_def split: prod.splits)

text \<open>Claim C5, amended, on the device: \<open>begin(3)\<close> succeeds.\<close>
theorem begin_psram_cases_witness:
  "use_psram (make_ota_backend True)
   \<and> fst (IDFOTABackend_begin sim (make_ota_backend True) device 3) = OTA_RESPONSE_OK
   \<and> bytes_received (fst (snd (IDFOTABackend_begin sim (make_ota_backend True) device 3))) = 0
   \<and> fed (md5 (fst (snd (IDFOTABackend_begin sim (make_ota_backend True) device 3)))) = []
   \<and> partition_ptr (fst (snd (IDFOTABackend_begin sim (make_ota_backend True) device 3))) = None
   \<and> snd (snd (IDFOTABackend_begin sim (make_ota_backend True) device 3))
       = snd (heap_caps_malloc sim 3 device)"
proof -
  have 1: "use_psram (make_ota_backend True)"
    by (simp add: make_ota_backend_def set_psram_mode_def)
  have 2: "fst (IDFOTABackend_begin sim (make_ota_backend True) device 3) = OTA_RESPONSE_OK"
    by (simp add: eval_simps)
  have 3: "partition_ptr (make_ota_backend True) = None"
    by (simp add: make_ota_backend_def set_psram_mode_def new_backend_def)
  from begin_psram_cases [OF 1, where P = sim and w = device and S = 3] 1 2 3
  show ?thesis
    by (simp add: md5_init_def)
qed

text \<open>Claim C5 as stated fails where the pool reports zero bytes free: fewer than the 4
  bytes asked for are free, and \<open>begin\<close> returns the no-update-partition code, not the
  insufficient-space code.\<close>
theorem begin_psram_zero_free_counterexample:
  "use_psram (make_ota_backend True)
   \<and> heap_caps_get_free_size sim (device\<lparr>psram_free := 0\<rparr>) < 4
   \<and> fst (IDFOTABackend_begin sim (make_ota_backend True) (device\<lparr>psram_free := 0\<rparr>) 4)
       = OTA_RESPONSE_ERROR_NO_UPDATE_PARTITION
   \<and> fst (IDFOTABackend_begin sim (make_ota_backend True) (device\<lparr>psram_free := 0\<rparr>) 4)
       \<noteq> OTA_RESPONSE_ERROR_ESP32_NOT_ENOUGH_SPACE"
  by (simp add: eval_simps)

text \<open>
  Claim C9, amended. \<open>begin\<close> has no check of its own for an image size of 0: it returns Ok
  for size 0 exactly when the platform accepts the request. In PSRAM mode that is when the
  pool reports some bytes free and the allocation of 0 bytes returns a non-null pointer; in
  standard mode it is when an update partition exists and \<^verbatim>\<open>esp_ota_begin\<close> succeeds for
  size 0.
\<close>
theorem begin_zero_size:
  "fst (IDFOTABackend_begin P s w 0) = OTA_RESPONSE_OK \<longleftrightarrow>
     (if use_psram s
      then heap_caps_get_free_size P w \<noteq> 0 \<and> fst (heap_caps_malloc P 0 w) \<noteq> None
      else (case esp_ota_get_next_update_partition P w of
              None \<Rightarrow> False
            | Some part \<Rightarrow>
                fst (esp_ota_begin P part 0 (update_handle s)
                       (if CONFIG_ESP_TASK_WDT_TIMEOUT_S P < 15
                        then esp_task_wdt_reconfigure P 15000 w else w)) = ESP_OK))"
  by (auto simp add: IDFOTABackend_begin_def Let_def begin_error_def
      split: prod.splits option.splits)

text \<open>Claim C9, amended, on the device: the transaction opens for size 0, so \<open>begin(0)\<close>
  returns Ok in standard mode; the allocation of 0 bytes returns null, so it is refused in
  PSRAM mode.\<close>
theorem begin_zero_size_witness:
  "esp_ota_get_next_update_partition sim device = Some 2
   \<and> fst (esp_ota_begin sim 2 0 0 (device\<lparr>wdt_timeout_ms := 15000\<rparr>)) = ESP_OK
   \<and> fst (IDFOTABackend_begin sim (make_ota_backend False) device 0) = OTA_RESPONSE_OK
   \<and> fst (IDFOTABackend_begin sim (make_ota_backend True) device 0)
       = OTA_RESPONSE_ERROR_ESP32_NOT_ENOUGH_SPACE"
proof -
  have 1: "esp_ota_get_next_update_partition sim device = Some 2"
    and 2: "fst (esp_ota_begin sim 2 0 0 (device\<lparr>wdt_timeout_ms := 15000\<rparr>)) = ESP_OK"
    and 3: "CONFIG_ESP_TASK_WDT_TIMEOUT_S sim < 15"
    and 4: "esp_task_wdt_reconfigure sim 15000 device = device\<lparr>wdt_timeout_ms := 15000\<rparr>"
    and 5: "\<not> use_psram (make_ota_backend False)"
    and 6: "update_handle (make_ota_backend False) = 0"
    and 7: "fst (IDFOTABackend_begin sim (make_ota_backend True) device 0)
             = OTA_RESPONSE_ERROR_ESP32_NOT_ENOUGH_SPACE"
    by (simp_all add: eval_simps)
  from begin_zero_size [where P = sim and s = "make_ota_backend False" and w = device]
    1 2 3 4 5 6 7
  show ?thesis
    by simp
qed

text \<open>Claim C9 as stated fails in standard mode: \<open>begin(0)\<close> returns Ok on the device.\<close>
theorem begin_zero_accepted_counterexample:
  "fst (IDFOTABackend_begin sim (make_ota_backend False) device 0) = OTA_RESPONSE_OK"
  by (simp add: eval_simps)

subsection \<open>end\<close>

lemma end_without_md5:
  "\<not> md5_set s \<Longrightarrow>
   IDFOTABackend_end P s w
     = (if use_psram s then end_psram P s w else Some (end_direct P s w))"
  by (simp add: IDFOTABackend_end_def)

lemma end_with_md5:
  "md5_set s \<Longrightarrow>
   IDFOTABackend_end P s w =
     (if \<not> equals_hex (md5_calculate (md5_hash P) (md5 s)) (expected_bin_md5 s)
      then Some (abort_return OTA_RESPONSE_ERROR_MD5_MISMATCH P
                   (s\<lparr>md5 := md5_calculate (md5_hash P) (md5 s)\<rparr>) w)
      else if use_psram s then end_psram P (s\<lparr>md5 := md5_calculate (md5_hash P) (md5 s)\<rparr>) w
      else Some (end_direct P (s\<lparr>md5 := md5_calculate (md5_hash P) (md5 s)\<rparr>) w))"
  by (simp add: IDFOTABackend_end_def)

lemma buffer_bytes_partition_ptr [simp]:
  "buffer_bytes (s\<lparr>partition_ptr := x\<rparr>) = buffer_bytes s"
  by (simp add: buffer_bytes_def)

lemma end_psram_None:
  "target_lookup P s w = None \<Longrightarrow>
   end_psram P s w = Some (abort_return OTA_RESPONSE_ERROR_NO_UPDATE_PARTITION P
                             (s\<lparr>partition_ptr := None\<rparr>) w)"
  by (simp add: end_psram_def)

text \<open>The exits of \<open>end\<close> in PSRAM mode once the partition is found and both loops have
  returned, in the order of the source.\<close>
lemma end_psram_Some:
  assumes "target_lookup P s w = Some part"
      and "esp_partition_erase_range P part 0 (partition_size P part w) w = (e1, w1)"
      and "flash_from_psram P part (buffer_bytes s) (buffer_size s) 0 w1 = Some (e2, w2)"
      and "verify_flash P part (buffer_bytes s) (buffer_size s) 0 w2 = Some (ok, w3)"
      and "esp_ota_set_boot_partition P (Some part) w3 = (e4, w4)"
  shows "end_psram P s w =
          Some (if e1 \<noteq> ESP_OK
           then abort_return OTA_RESPONSE_ERROR_WRITING_FLASH P (s\<lparr>partition_ptr := Some part\<rparr>) w1
           else if e2 \<noteq> ESP_OK
           then abort_return OTA_RESPONSE_ERROR_WRITING_FLASH P (s\<lparr>partition_ptr := Some part\<rparr>) w2
           else if \<not> ok
           then abort_return OTA_RESPONSE_ERROR_WRITING_FLASH P (s\<lparr>partition_ptr := Some part\<rparr>) w3
           else if e4 \<noteq> ESP_OK
           then abort_return OTA_RESPONSE_ERROR_UPDATE_END P (s\<lparr>partition_ptr := Some part\<rparr>) w4
           else abort_return OTA_RESPONSE_OK P (s\<lparr>partition_ptr := Some part\<rparr>) w4)"
  using assms by (simp add: end_psram_def Let_def)

text \<open>In PSRAM mode every exit of \<open>end\<close> is an \<open>abort\<close> of the object with the partition
  reference set.\<close>
lemma end_psram_aborts:
  assumes "end_psram P s w = Some (r, s', w')"
  shows "\<exists>w0. IDFOTABackend_abort P (s\<lparr>partition_ptr := target_lookup P s w\<rparr>) w0 = (s', w')"
proof (cases "target_lookup P s w")
  case None
  with assms show ?thesis
    by (auto simp add: end_psram_None abort_return_eq)
next
  case (Some part)
  with assms show ?thesis
    by (simp only: end_psram_def Let_def)
       (auto simp add: abort_return_eq split: option.splits prod.splits if_splits)
qed













text \<open>An object built for standard mode never holds a buffer and its counters stay 0:
  no operation of standard mode writes these fields.\<close>
lemma standard_mode_fields:
  assumes "\<not> use_psram s" "psram_buffer s = None" "buffer_size s = 0" "bytes_received s = 0"
  shows "\<not> use_psram (fst (snd (IDFOTABackend_begin P s w S)))
         \<and> psram_buffer (fst (snd (IDFOTABackend_begin P s w S))) = None
         \<and> buffer_size (fst (snd (IDFOTABackend_begin P s w S))) = 0
         \<and> bytes_received (fst (snd (IDFOTABackend_begin P s w S))) = 0"
    and "\<not> use_psram (fst (snd (IDFOTABackend_write P s w data)))
         \<and> psram_buffer (fst (snd (IDFOTABackend_write P s w data))) = None
         \<and> buffer_size (fst (snd (IDFOTABackend_write P s w data))) = 0
         \<and> bytes_received (fst (snd (IDFOTABackend_write P s w data))) = 0"
    and "\<not> use_psram (fst (IDFOTABackend_abort P s w))
         \<and> psram_buffer (fst (IDFOTABackend_abort P s w)) = None
         \<and> buffer_size (fst (IDFOTABackend_abort P s w)) = 0
         \<and> bytes_received (fst (IDFOTABackend_abort P s w)) = 0"
  using assms
  by (auto simp add: IDFOTABackend_begin_def IDFOTABackend_write_def IDFOTABackend_abort_def
      Let_def split: prod.splits option.splits if_splits)

lemma standard_mode_new:
  "\<not> use_psram (make_ota_backend False) \<and> psram_buffer (make_ota_backend False) = None
   \<and> buffer_size (make_ota_backend False) = 0 \<and> bytes_received (make_ota_backend False) = 0"
  by (simp add: make_ota_backend_def new_backend_def)

text \<open>The mapping of a failed commit never gives the checksum-mismatch code.\<close>
lemma end_error_not_mismatch: "end_error err \<noteq> OTA_RESPONSE_ERROR_MD5_MISMATCH"
  by (simp add: end_error_def)

lemma end_direct_result:
  "end_direct P s w =
     (fst (end_direct P s w), s\<lparr>update_handle := 0\<rparr>,
      (case esp_ota_end P (update_handle s) w of
         (e1, w1) \<Rightarrow>
           if e1 = ESP_OK then snd (esp_ota_set_boot_partition P (partition_ptr s) w1) else w1))"
  by (simp add: end_direct_def Let_def split: prod.splits)

lemma end_direct_not_mismatch:
  "fst (end_direct P s w) \<noteq> OTA_RESPONSE_ERROR_MD5_MISMATCH"
  by (simp add: end_direct_def Let_def end_error_not_mismatch split: prod.splits)

text \<open>
  Claim C3, amended. Whenever \<open>end\<close> returns a code other than Ok:
  in PSRAM mode, and in either mode on a digest mismatch, \<open>abort\<close> has been called before
  the code is returned, on an object that holds the session's buffer and handle; so the
  buffer is released, the transaction of a nonzero handle is discarded with
  \<^verbatim>\<open>esp_ota_abort\<close>, the handle is cleared and the counters are 0.
  On a failed commit in standard mode (the close of the transaction or the designation of
  the boot target failed, lines 210-225) \<open>abort\<close> is not called: the handle is cleared after
  \<^verbatim>\<open>esp_ota_end\<close>, no other field of the object is written, and the platform is left as
  \<^verbatim>\<open>esp_ota_end\<close> and, when it was reached, \<^verbatim>\<open>esp_ota_set_boot_partition\<close> left it:
  neither \<^verbatim>\<open>esp_ota_abort\<close> nor \<^verbatim>\<open>heap_caps_free\<close> is called, and whether the transaction
  is discarded is up to \<^verbatim>\<open>esp_ota_end\<close>. For an object that holds no buffer and has zero
  counters, as in a session of standard mode, the buffer pointer is null, the handle is
  cleared and the counters are 0 after every failing exit.
\<close>
theorem end_failure_exits:
  assumes "IDFOTABackend_end P s w = Some (r, s', w')"
      and "r \<noteq> OTA_RESPONSE_OK"
  shows "(use_psram s \<or> r = OTA_RESPONSE_ERROR_MD5_MISMATCH \<longrightarrow>
            (\<exists>s0 w0. IDFOTABackend_abort P s0 w0 = (s', w')
                \<and> psram_buffer s0 = psram_buffer s \<and> update_handle s0 = update_handle s
                \<and> buffer_size s0 = buffer_size s \<and> bytes_received s0 = bytes_received s)
            \<and> psram_buffer s' = None \<and> update_handle s' = 0
            \<and> bytes_received s' = 0 \<and> buffer_size s' = 0)
         \<and> (\<not> use_psram s \<and> r \<noteq> OTA_RESPONSE_ERROR_MD5_MISMATCH \<longrightarrow>
              s' = (if md5_set s then s\<lparr>md5 := md5_calculate (md5_hash P) (md5 s)\<rparr> else s)
                     \<lparr>update_handle := 0\<rparr>
              \<and> w' = (case esp_ota_end P (update_handle s) w of
                         (e1, w1) \<Rightarrow>
                           if e1 = ESP_OK
                           then snd (esp_ota_set_boot_partition P (partition_ptr s) w1)
                           else w1))
         \<and> (psram_buffer s = None \<and> buffer_size s = 0 \<and> bytes_received s = 0 \<longrightarrow>
              psram_buffer s' = None \<and> update_handle s' = 0
              \<and> bytes_received s' = 0 \<and> buffer_size s' = 0)"
proof -
  let ?t = "if md5_set s then s\<lparr>md5 := md5_calculate (md5_hash P) (md5 s)\<rparr> else s"
  have t: "psram_buffer ?t = psram_buffer s" "update_handle ?t = update_handle s"
    "partition_ptr ?t = partition_ptr s" "buffer_size ?t = buffer_size s"
    "bytes_received ?t = bytes_received s"
    by simp_all
  have aborted: ?thesis
    if a: "IDFOTABackend_abort P s0 w0 = (s', w')"
      and s0: "psram_buffer s0 = psram_buffer s" "update_handle s0 = update_handle s"
        "buffer_size s0 = buffer_size s" "bytes_received s0 = bytes_received s"
      and which: "use_psram s \<or> r = OTA_RESPONSE_ERROR_MD5_MISMATCH" for s0 w0
  proof -
    from a have "s' = fst (IDFOTABackend_abort P s0 w0)"
      by simp
    then have "psram_buffer s' = None \<and> update_handle s' = 0
            \<and> bytes_received s' = 0 \<and> buffer_size s' = 0"
      by (simp add: abort_fields)
    with a s0 which show ?thesis
      by blast
  qed
  have "IDFOTABackend_end P s w
          = (if use_psram s then end_psram P ?t w else Some (end_direct P ?t w))"
    if "md5_set s \<longrightarrow> equals_hex (md5_calculate (md5_hash P) (md5 s)) (expected_bin_md5 s)"
    using that by (cases "md5_set s") (simp_all add: end_with_md5 end_without_md5)
  then consider (mismatch) "md5_set s"
      "\<not> equals_hex (md5_calculate (md5_hash P) (md5 s)) (expected_bin_md5 s)"
    | (psram) "IDFOTABackend_end P s w = end_psram P ?t w" "use_psram s"
    | (direct) "IDFOTABackend_end P s w = Some (end_direct P ?t w)" "\<not> use_psram s"
    by (cases "use_psram s") auto
  then show ?thesis
  proof cases
    case mismatch
    with assms(1)
    have "r = OTA_RESPONSE_ERROR_MD5_MISMATCH" "IDFOTABackend_abort P ?t w = (s', w')"
      by (simp_all add: end_with_md5 abort_return_eq)
    then show ?thesis
      using t by (intro aborted [of ?t w]) simp_all
  next
    case psram
    with assms(1) have "end_psram P ?t w = Some (r, s', w')"
      by simp
    from end_psram_aborts [OF this] obtain w0 where
      "IDFOTABackend_abort P (?t\<lparr>partition_ptr := target_lookup P ?t w\<rparr>) w0 = (s', w')"
      by blast
    then show ?thesis
      using psram(2) by (intro aborted [of "?t\<lparr>partition_ptr := target_lookup P ?t w\<rparr>" w0]) simp_all
  next
    case direct
    with assms(1) have d: "end_direct P ?t w = (r, s', w')"
      by simp
    with end_direct_not_mismatch [of P ?t w] have r: "r \<noteq> OTA_RESPONSE_ERROR_MD5_MISMATCH"
      by simp
    from d end_direct_result [of P ?t w]
    have s': "s' = ?t\<lparr>update_handle := 0\<rparr>"
      and w': "w' = (case esp_ota_end P (update_handle s) w of
                         (e1, w1) \<Rightarrow>
                           if e1 = ESP_OK
                           then snd (esp_ota_set_boot_partition P (partition_ptr s) w1)
                           else w1)"
      by (simp_all only: t prod.inject)
    from s' have "psram_buffer s' = psram_buffer s" "update_handle s' = 0"
      "bytes_received s' = bytes_received s" "buffer_size s' = buffer_size s"
      by simp_all
    with direct(2) r s' w' show ?thesis
      by simp
  qed
qed

text \<open>Claim C3, amended, on the two sessions of the device. In standard mode, with a
  validation failure injected into the close of the transaction, \<open>end\<close> returns the
  update-end code, the handle is cleared and the platform is as \<^verbatim>\<open>esp_ota_end\<close> left it.
  In PSRAM mode, with a label that no partition has, \<open>end\<close> returns the
  no-update-partition code and the buffer is released.\<close>
theorem end_failure_exits_witness:
  "IDFOTABackend_end sim (fst direct_session)
       ((snd direct_session)\<lparr>faults := [ESP_ERR_OTA_VALIDATE_FAILED]\<rparr>)
     = Some (OTA_RESPONSE_ERROR_UPDATE_END, (fst direct_session)\<lparr>update_handle := 0\<rparr>,
             (snd direct_session)\<lparr>ota_ops := []\<rparr>)
   \<and> \<not> use_psram (fst direct_session)
   \<and> esp_ota_end sim (update_handle (fst direct_session))
       ((snd direct_session)\<lparr>faults := [ESP_ERR_OTA_VALIDATE_FAILED]\<rparr>)
     = (ESP_ERR_OTA_VALIDATE_FAILED, (snd direct_session)\<lparr>ota_ops := []\<rparr>)
   \<and> use_psram (fst psram_session)
   \<and> psram_buffer (fst psram_session) = Some (1, [1, 2, 3])
   \<and> psram_blocks (snd psram_session) = [(1, 3)]
   \<and> fst (the (IDFOTABackend_end sim (set_target_partition ''app'' (fst psram_session))
                 (snd psram_session))) = OTA_RESPONSE_ERROR_NO_UPDATE_PARTITION
   \<and> psram_buffer (fst (snd (the (IDFOTABackend_end sim
        (set_target_partition ''app'' (fst psram_session)) (snd psram_session))))) = None
   \<and> buffer_size (fst (snd (the (IDFOTABackend_end sim
        (set_target_partition ''app'' (fst psram_session)) (snd psram_session))))) = 0
   \<and> psram_blocks (snd (snd (the (IDFOTABackend_end sim
        (set_target_partition ''app'' (fst psram_session)) (snd psram_session))))) = []"
proof -
  let ?s = "fst direct_session"
  let ?w = "(snd direct_session)\<lparr>faults := [ESP_ERR_OTA_VALIDATE_FAILED]\<rparr>"
  let ?w' = "(snd direct_session)\<lparr>ota_ops := []\<rparr>"
  let ?t = "set_target_partition ''app'' (fst psram_session)"
  let ?v = "snd psram_session"
  have s: "\<not> use_psram ?s" "\<not> md5_set ?s"
    by (simp_all add: direct_session_eval)
  have c: "esp_ota_end sim (update_handle ?s) ?w = (ESP_ERR_OTA_VALIDATE_FAILED, ?w')"
    by (simp add: direct_session_eval sim_def sim_ota_end_def next_fault_def)
  have "fst (the (IDFOTABackend_end sim ?s ?w)) = OTA_RESPONSE_ERROR_UPDATE_END"
    using s c by (simp add: end_without_md5 end_direct_def end_error_def)
  then obtain s' w' where
    d': "IDFOTABackend_end sim ?s ?w = Some (OTA_RESPONSE_ERROR_UPDATE_END, s', w')"
    using s by (cases "IDFOTABackend_end sim ?s ?w") (auto simp add: end_without_md5)
  from end_failure_exits [OF d'] s c
  have "s' = ?s\<lparr>update_handle := 0\<rparr> \<and> w' = ?w'"
    by simp
  with d' have d: "IDFOTABackend_end sim ?s ?w
           = Some (OTA_RESPONSE_ERROR_UPDATE_END, ?s\<lparr>update_handle := 0\<rparr>, ?w')"
    by simp
  have p: "use_psram (fst psram_session)" "psram_buffer (fst psram_session) = Some (1, [1, 2, 3])"
    "psram_blocks ?v = [(1, 3)]"
    by (simp_all add: psram_session_eval)
  have e: "IDFOTABackend_end sim ?t ?v
           = Some (OTA_RESPONSE_ERROR_NO_UPDATE_PARTITION,
                   IDFOTABackend_abort sim (?t\<lparr>partition_ptr := None\<rparr>) ?v)"
    by (simp add: psram_session_def eval_simps)
  then have r: "fst (the (IDFOTABackend_end sim ?t ?v)) = OTA_RESPONSE_ERROR_NO_UPDATE_PARTITION"
    and b: "psram_blocks (snd (snd (the (IDFOTABackend_end sim ?t ?v)))) = []"
    by (simp_all add: psram_session_def eval_simps)
  obtain s' w' where sw: "IDFOTABackend_abort sim (?t\<lparr>partition_ptr := None\<rparr>) ?v = (s', w')"
    by (cases "IDFOTABackend_abort sim (?t\<lparr>partition_ptr := None\<rparr>) ?v") auto
  have "use_psram ?t"
    by (simp add: set_target_partition_def p)
  with end_failure_exits [OF e [unfolded sw]]
  have "psram_buffer s' = None \<and> buffer_size s' = 0"
    by simp
  with e sw have 2: "psram_buffer (fst (snd (the (IDFOTABackend_end sim ?t ?v)))) = None"
    "buffer_size (fst (snd (the (IDFOTABackend_end sim ?t ?v)))) = 0"
    by simp_all
  from d s c p r b 2 show ?thesis
    by (simp only: simp_thms)
qed

text \<open>Claim C3 as stated fails in standard mode on a storage layer whose failed close has no
  effect. The session of the device is open with the transaction \<open>(1, 2, 3)\<close>; the close
  fails validation; \<open>end\<close> returns the update-end code with the transaction still open,
  where an \<open>abort\<close> of the session discards it: no \<open>abort\<close> has been called on the session,
  and the transaction is not discarded.\<close>
theorem end_failure_no_abort_counterexample:
  "snd (snd (session sim_keep (make_ota_backend False) device 3 [[1, 2], [3]])) = direct_session
   \<and> update_handle (fst direct_session) = 1
   \<and> ota_ops (snd direct_session) = [(1, 2, 3)]
   \<and> IDFOTABackend_end sim_keep (fst direct_session)
       ((snd direct_session)\<lparr>faults := [ESP_ERR_OTA_VALIDATE_FAILED]\<rparr>)
     = Some (OTA_RESPONSE_ERROR_UPDATE_END, (fst direct_session)\<lparr>update_handle := 0\<rparr>,
             snd direct_session)
   \<and> ota_ops (snd (snd (the (IDFOTABackend_end sim_keep (fst direct_session)
       ((snd direct_session)\<lparr>faults := [ESP_ERR_OTA_VALIDATE_FAILED]\<rparr>))))) = [(1, 2, 3)]
   \<and> ota_ops (snd (IDFOTABackend_abort sim_keep (fst direct_session)
       ((snd direct_session)\<lparr>faults := [ESP_ERR_OTA_VALIDATE_FAILED]\<rparr>))) = []"
  by (simp add: direct_session_def eval_simps sim_keep_def sim_ota_end_keep_def)




text \<open>
  Claim C7, amended. In standard mode, once the digest check has passed or was skipped, let
  \<open>err\<close> be the code of the failing step of the commit: the result of closing the
  transaction if that fails, otherwise the result of designating the partition as the boot
  target. \<open>end\<close> returns, and it returns Ok exactly when both steps succeed. It returns the
  update-end code when \<open>err\<close> is the validation failure, from either step; the flash-write
  code when \<open>err\<close> is a flash-operation failure or timeout, from either step; and the
  unknown-error code for any other failure of either step.
\<close>
theorem end_direct_mapping:
  assumes "\<not> use_psram s"
      and "md5_set s \<Longrightarrow> equals_hex (md5_calculate (md5_hash P) (md5 s)) (expected_bin_md5 s)"
      and "err = (case esp_ota_end P (update_handle s) w of
                    (e1, w1) \<Rightarrow>
                      if e1 = ESP_OK then fst (esp_ota_set_boot_partition P (partition_ptr s) w1)
                      else e1)"
  shows "IDFOTABackend_end P s w \<noteq> None
         \<and> fst (the (IDFOTABackend_end P s w)) =
           (if err = ESP_OK then OTA_RESPONSE_OK
            else if err = ESP_ERR_OTA_VALIDATE_FAILED then OTA_RESPONSE_ERROR_UPDATE_END
            else if err = ESP_ERR_FLASH_OP_TIMEOUT \<or> err = ESP_ERR_FLASH_OP_FAIL
            then OTA_RESPONSE_ERROR_WRITING_FLASH
            else OTA_RESPONSE_ERROR_UNKNOWN)
         \<and> (fst (the (IDFOTABackend_end P s w)) = OTA_RESPONSE_OK \<longleftrightarrow>
              fst (esp_ota_end P (update_handle s) w) = ESP_OK
              \<and> fst (esp_ota_set_boot_partition P (partition_ptr s)
                        (snd (esp_ota_end P (update_handle s) w))) = ESP_OK)"
  using assms
  by (auto simp add: IDFOTABackend_end_def end_direct_def end_error_def Let_def split: prod.splits)

text \<open>Claim C7, amended, on the standard-mode session of the device: the close succeeds, the
  designation fails validation, \<open>end\<close> returns the update-end code.\<close>
theorem end_direct_mapping_witness:
  "\<not> use_psram (fst direct_session)
   \<and> \<not> md5_set (fst direct_session)
   \<and> fst (esp_ota_end sim (update_handle (fst direct_session))
            ((snd direct_session)\<lparr>faults := [ESP_OK, ESP_ERR_OTA_VALIDATE_FAILED]\<rparr>)) = ESP_OK
   \<and> fst (esp_ota_set_boot_partition sim (partition_ptr (fst direct_session))
            (snd (esp_ota_end sim (update_handle (fst direct_session))
                    ((snd direct_session)\<lparr>faults := [ESP_OK, ESP_ERR_OTA_VALIDATE_FAILED]\<rparr>))))
       = ESP_ERR_OTA_VALIDATE_FAILED
   \<and> IDFOTABackend_end sim (fst direct_session)
            ((snd direct_session)\<lparr>faults := [ESP_OK, ESP_ERR_OTA_VALIDATE_FAILED]\<rparr>) \<noteq> None
   \<and> fst (the (IDFOTABackend_end sim (fst direct_session)
            ((snd direct_session)\<lparr>faults := [ESP_OK, ESP_ERR_OTA_VALIDATE_FAILED]\<rparr>)))
       = OTA_RESPONSE_ERROR_UPDATE_END"
proof -
  let ?s = "fst direct_session"
  let ?w = "(snd direct_session)\<lparr>faults := [ESP_OK, ESP_ERR_OTA_VALIDATE_FAILED]\<rparr>"
  have 1: "\<not> use_psram ?s" and 2: "\<not> md5_set ?s"
    by (simp_all add: direct_session_eval)
  have e: "esp_ota_end sim (update_handle ?s) ?w
           = (ESP_OK, (snd direct_session)\<lparr>ota_ops := [], faults := [ESP_ERR_OTA_VALIDATE_FAILED]\<rparr>)"
    by (simp add: direct_session_eval sim_def sim_ota_end_def next_fault_def)
  have b: "fst (esp_ota_set_boot_partition sim (partition_ptr ?s)
             ((snd direct_session)\<lparr>ota_ops := [], faults := [ESP_ERR_OTA_VALIDATE_FAILED]\<rparr>))
           = ESP_ERR_OTA_VALIDATE_FAILED"
    by (simp add: sim_def sim_set_boot_def next_fault_def)
  from end_direct_mapping [where s = ?s and P = sim and w = ?w
      and err = ESP_ERR_OTA_VALIDATE_FAILED] 1 2 e b
  have "IDFOTABackend_end sim ?s ?w \<noteq> None
        \<and> fst (the (IDFOTABackend_end sim ?s ?w)) = OTA_RESPONSE_ERROR_UPDATE_END"
    by simp
  with 1 2 e b show ?thesis
    by simp
qed

text \<open>Claim C7 as stated fails where the designation of the boot target fails with a code
  that is neither the validation failure nor a flash failure (here: the OTA data partition is
  not found): \<open>end\<close> returns the unknown-error code, not the update-end code.\<close>
theorem end_direct_boot_failure_counterexample:
  "\<not> use_psram (fst direct_session)
   \<and> \<not> md5_set (fst direct_session)
   \<and> fst (esp_ota_end sim (update_handle (fst direct_session))
            ((snd direct_session)\<lparr>faults := [ESP_OK, ESP_ERR_NOT_FOUND]\<rparr>)) = ESP_OK
   \<and> fst (esp_ota_set_boot_partition sim (partition_ptr (fst direct_session))
            (snd (esp_ota_end sim (update_handle (fst direct_session))
                    ((snd direct_session)\<lparr>faults := [ESP_OK, ESP_ERR_NOT_FOUND]\<rparr>))))
       = ESP_ERR_NOT_FOUND
   \<and> IDFOTABackend_end sim (fst direct_session)
            ((snd direct_session)\<lparr>faults := [ESP_OK, ESP_ERR_NOT_FOUND]\<rparr>) \<noteq> None
   \<and> fst (the (IDFOTABackend_end sim (fst direct_session)
            ((snd direct_session)\<lparr>faults := [ESP_OK, ESP_ERR_NOT_FOUND]\<rparr>)))
       = OTA_RESPONSE_ERROR_UNKNOWN
   \<and> fst (the (IDFOTABackend_end sim (fst direct_session)
            ((snd direct_session)\<lparr>faults := [ESP_OK, ESP_ERR_NOT_FOUND]\<rparr>)))
       \<noteq> OTA_RESPONSE_ERROR_UPDATE_END"
  by (simp add: direct_session_eval IDFOTABackend_end_def end_direct_def end_error_def
        sim_def sim_ota_end_def sim_set_boot_def next_fault_def)

subsection \<open>A whole session on the reference platform\<close>

lemma sim_sel:
  "CONFIG_ESP_TASK_WDT_TIMEOUT_S sim = 5"
  "md5_hash sim = sim_md5"
  "heap_caps_get_free_size sim = psram_free"
  "heap_caps_malloc sim = sim_malloc"
  "heap_caps_free sim = sim_free"
  "esp_task_wdt_reconfigure sim = (\<lambda>ms w. w\<lparr>wdt_timeout_ms := ms\<rparr>)"
  "esp_task_wdt_reset sim = (\<lambda>w. w\<lparr>wdt_resets := Suc (wdt_resets w)\<rparr>)"
  "esp_ota_get_next_update_partition sim = sim_next_update"
  "esp_ota_begin sim = sim_ota_begin"
  "esp_ota_write sim = sim_ota_write"
  "esp_ota_end sim = sim_ota_end"
  "esp_ota_abort sim = sim_ota_abort"
  "esp_ota_set_boot_partition sim = sim_set_boot"
  "esp_partition_find_first sim = sim_find_first"
  "partition_size sim = sim_partition_size"
  "esp_partition_erase_range sim = sim_erase_range"
  "esp_partition_write sim = sim_write"
  "esp_partition_read sim = sim_read"
  by (simp_all add: sim_def)

lemma next_fault_none: "faults w = [] \<Longrightarrow> next_fault w = (ESP_OK, w)"
  by (simp add: next_fault_def)

lemma and_erased: "(255 :: u8) AND x = x"
proof -
  have "(255 :: u8) = - 1" by simp
  then show ?thesis by (simp only: and.left_neutral)
qed

lemma map2_and_erased:
  "length xs = n \<Longrightarrow> map2 (AND) (replicate n (255 :: u8)) xs = xs"
  by (induction xs arbitrary: n) (auto simp add: and_erased)

text \<open>One chunk written over erased flash.\<close>
lemma flash_chunk:
  fixes buf rest :: "u8 list"
  assumes "offset < length buf" "length buf \<le> psz"
      and "cl = min CHUNK_SIZE (length buf - offset)"
      and "d = take offset buf @ replicate (psz - offset) 255 @ rest"
  shows "take offset d @ map2 (AND) (take (length (take cl (drop offset buf))) (drop offset d))
                            (take cl (drop offset buf))
           @ drop (offset + length (take cl (drop offset buf))) d
         = take (offset + CHUNK_SIZE) buf
           @ replicate (psz - min (offset + CHUNK_SIZE) (length buf)) 255 @ rest"
proof -
  have cl: "cl \<le> length buf - offset" "length (take cl (drop offset buf)) = cl"
    using assms(1,3) by simp_all
  have lo: "length (take offset buf) = offset"
    using assms(1) by simp
  have 1: "take offset d = take offset buf"
    using lo by (simp add: assms(4))
  have 2: "drop offset d = replicate (psz - offset) 255 @ rest"
    using lo by (simp add: assms(4))
  have 3: "take cl (drop offset d) = replicate cl 255"
    using cl assms(1,2) by (simp add: 2 min_def)
  have 4: "drop (offset + cl) d = replicate (psz - (offset + cl)) 255 @ rest"
    using lo cl assms(1,2) by (simp add: assms(4))
  have 5: "take offset buf @ take cl (drop offset buf) = take (offset + cl) buf"
    by (simp add: take_add)
  have 6: "take (offset + cl) buf = take (offset + CHUNK_SIZE) buf"
    using assms(1,3) by (auto simp add: min_def)
  have 7: "offset + cl = min (offset + CHUNK_SIZE) (length buf)"
    using assms(1,3) by (auto simp add: min_def)
  show ?thesis
    unfolding cl(2) 1 3 4 map2_and_erased [OF cl(2)]
    using 5 6 7 by simp
qed


lemma sim_erase_ok:
  assumes "faults w = []" "part < length (table w)" "off + len \<le> p_size (table w ! part)"
  shows "sim_erase_range part off len w
         = (ESP_OK, w\<lparr>flash := (flash w)(part := take off (flash w part) @ replicate len 255
                                               @ drop (off + len) (flash w part))\<rparr>)"
  using assms by (simp add: sim_erase_range_def next_fault_none)

lemma sim_write_ok:
  assumes "faults w = []" "part < length (table w)"
      and "off + length data \<le> p_size (table w ! part)"
  shows "sim_write part off data w
         = (ESP_OK,
            w\<lparr>flash := (flash w)
                 (part := take off (flash w part)
                          @ map2 (AND) (take (length data) (drop off (flash w part))) data
                          @ drop (off + length data) (flash w part))\<rparr>)"
  using assms by (simp add: sim_write_def next_fault_none)

lemma sim_read_ok:
  assumes "faults w = []" "part < length (table w)" "off + len \<le> p_size (table w ! part)"
  shows "sim_read part off len w = (ESP_OK, take len (drop off (flash w part)), w)"
  using assms by (simp add: sim_read_def next_fault_none)

lemma sim_set_boot_ok:
  assumes "faults w = []" "part < length (table w)"
      and "p_type (table w ! part) = ESP_PARTITION_TYPE_APP"
  shows "sim_set_boot (Some part) w = (ESP_OK, w\<lparr>boot := part\<rparr>)"
  using assms by (simp add: sim_set_boot_def next_fault_none)

text \<open>The write loop on erased flash, for a buffer of at most \<open>2^32 - 4096\<close> bytes: it
  returns, it succeeds, and it leaves the buffer at the start of the partition.\<close>
lemma flash_from_psram_sim:
  assumes "faults w = []" "part < length (table w)" "length buf \<le> p_size (table w ! part)"
      and "flash w part = take offset buf
             @ replicate (p_size (table w ! part) - min offset (length buf)) 255 @ rest"
      and "length buf + CHUNK_SIZE \<le> 2 ^ 32"
  shows "\<exists>w'. flash_from_psram sim part buf (length buf) offset w = Some (ESP_OK, w')
           \<and> faults w' = [] \<and> table w' = table w \<and> boot w' = boot w
           \<and> flash w' part = buf @ replicate (p_size (table w ! part) - length buf) 255 @ rest"
  using assms
proof (induction "length buf - offset" arbitrary: offset w rule: less_induct)
  case less
  note simps = flash_from_psram.simps [of sim part buf "length buf" offset w]
  show ?case
  proof (cases "offset < length buf")
    case False
    with less.prems show ?thesis
      by (simp add: simps)
  next
    case True
    define cl where "cl = min CHUNK_SIZE (length buf - offset)"
    define d where "d = flash w part"
    define d' where "d' = take offset d
        @ map2 (AND) (take (length (take cl (drop offset buf))) (drop offset d))
              (take cl (drop offset buf))
        @ drop (offset + length (take cl (drop offset buf))) d"
    define w2 where "w2 = w\<lparr>flash := (flash w)(part := d'), wdt_resets := Suc (wdt_resets w)\<rparr>"
    have cl: "length (take cl (drop offset buf)) = cl" "offset + cl \<le> length buf"
      using True by (simp_all add: cl_def)
    have d: "d = take offset buf
               @ replicate (p_size (table w ! part) - offset) 255 @ rest"
      using less.prems(4) True by (simp add: d_def min_def)
    have wr: "sim_write part offset (take cl (drop offset buf)) w
              = (ESP_OK, w\<lparr>flash := (flash w)(part := d')\<rparr>)"
      using less.prems(1-3) cl
      by (subst sim_write_ok) (simp_all add: d'_def d_def)
    have next_offset: "size_t_add offset CHUNK_SIZE = offset + CHUNK_SIZE"
      using True less.prems(5) by (intro size_t_add_small) simp
    have step: "flash_from_psram sim part buf (length buf) offset w
                = flash_from_psram sim part buf (length buf) (offset + CHUNK_SIZE) w2"
      using True wr
      by (subst simps) (simp add: Let_def sim_sel cl_def [symmetric] w2_def next_offset)
    have inv: "flash w2 part = take (offset + CHUNK_SIZE) buf
             @ replicate (p_size (table w2 ! part) - min (offset + CHUNK_SIZE) (length buf)) 255
             @ rest"
      using flash_chunk [OF True less.prems(3) cl_def d]
      by (simp add: w2_def d'_def)
    have "length buf - (offset + CHUNK_SIZE) < length buf - offset"
      using True by (simp add: CHUNK_SIZE_def)
    from less.hyps [OF this, of w2] less.prems(1-3,5) inv
    obtain w' where "flash_from_psram sim part buf (length buf) (offset + CHUNK_SIZE) w2
                       = Some (ESP_OK, w')"
      "faults w' = []" "table w' = table w2" "boot w' = boot w2"
      "flash w' part = buf @ replicate (p_size (table w2 ! part) - length buf) 255 @ rest"
      by (auto simp add: w2_def)
    then show ?thesis
      unfolding step by (simp add: w2_def)
  qed
qed

text \<open>The verify loop on a partition that starts with the buffer, for a buffer of at most
  \<open>2^32 - 4096\<close> bytes: it returns, and every chunk passes.\<close>
lemma verify_flash_sim:
  assumes "faults w = []" "part < length (table w)" "length buf \<le> p_size (table w ! part)"
      and "flash w part = buf @ rest"
      and "length buf + CHUNK_SIZE \<le> 2 ^ 32"
  shows "\<exists>w'. verify_flash sim part buf (length buf) offset w = Some (True, w')
           \<and> faults w' = [] \<and> table w' = table w \<and> boot w' = boot w
           \<and> flash w' = flash w"
  using assms
proof (induction "length buf - offset" arbitrary: offset w rule: less_induct)
  case less
  note simps = verify_flash.simps [of sim part buf "length buf" offset w]
  show ?case
  proof (cases "offset < length buf")
    case False
    then show ?thesis
      by (simp add: simps less.prems)
  next
    case True
    define cl where "cl = min CHUNK_SIZE (length buf - offset)"
    define w2 where "w2 = w\<lparr>wdt_resets := Suc (wdt_resets w)\<rparr>"
    have cl: "offset + cl \<le> length buf"
      using True by (simp add: cl_def)
    have rd: "sim_read part offset cl w = (ESP_OK, take cl (drop offset (flash w part)), w)"
      using less.prems(1-3) cl by (subst sim_read_ok) simp_all
    have same: "take cl (drop offset (flash w part)) = take cl (drop offset buf)"
      using cl by (simp add: less.prems(4))
    have next_offset: "size_t_add offset CHUNK_SIZE = offset + CHUNK_SIZE"
      using True less.prems(5) by (intro size_t_add_small) simp
    have step: "verify_flash sim part buf (length buf) offset w
                = verify_flash sim part buf (length buf) (offset + CHUNK_SIZE) w2"
      using True rd same
      by (subst simps) (simp add: Let_def sim_sel cl_def [symmetric] w2_def next_offset)
    have "length buf - (offset + CHUNK_SIZE) < length buf - offset"
      using True by (simp add: CHUNK_SIZE_def)
    from less.hyps [OF this, of w2] less.prems
    obtain w' where
      "verify_flash sim part buf (length buf) (offset + CHUNK_SIZE) w2 = Some (True, w')"
      "faults w' = []" "table w' = table w2" "boot w' = boot w2" "flash w' = flash w2"
      by (auto simp add: w2_def)
    then show ?thesis
      unfolding step by (simp add: w2_def)
  qed
qed


lemma sim_find_first_Some:
  assumes "sim_find_first t st lbl w = Some part"
  shows "part < length (table w)" "p_type (table w ! part) = t"
  using assms by (auto simp add: sim_find_first_def find_Some_iff part_matches_def)

lemma sim_find_first_table:
  "table w' = table w \<Longrightarrow> sim_find_first t st lbl w' = sim_find_first t st lbl w"
  by (simp add: sim_find_first_def)

text \<open>On the reference platform \<open>abort\<close> touches neither the flash nor the boot target.\<close>
lemma abort_sim_flash:
  "flash (snd (IDFOTABackend_abort sim s w)) = flash w
   \<and> boot (snd (IDFOTABackend_abort sim s w)) = boot w
   \<and> faults (snd (IDFOTABackend_abort sim s w)) = faults w
   \<and> table (snd (IDFOTABackend_abort sim s w)) = table w"
proof -
  have "(\<lambda>v. (flash v, boot v, faults v, table v)) (snd (IDFOTABackend_abort sim s w))
        = (\<lambda>v. (flash v, boot v, faults v, table v)) w"
    by (rule abort_obs)
       (simp_all add: sim_sel sim_free_def sim_ota_abort_def split: option.splits)
  then show ?thesis by simp
qed

lemma memcpy_at_append:
  assumes "off + length c \<le> length b"
  shows "memcpy_at (memcpy_at b off c) (off + length c) d = memcpy_at b off (c @ d)"
proof -
  have "off \<le> length b" "length c \<le> length b - off"
    using assms by simp_all
  then show ?thesis
    by (simp add: memcpy_at_def min_def add.commute add.left_commute)
qed

lemma memcpy_at_nil: "memcpy_at b off [] = b"
  by (simp add: memcpy_at_def)

lemma memcpy_at_all: "length d = length b \<Longrightarrow> memcpy_at b 0 d = d"
  by (simp add: memcpy_at_def)

lemma write_psram_ok:
  assumes "use_psram s" "bytes_received s + length data \<le> buffer_size s"
      and "buffer_size s < 2 ^ 32"
  shows "IDFOTABackend_write P s w data =
           (OTA_RESPONSE_OK,
            s\<lparr>psram_buffer :=
                 map_option (\<lambda>(p, b). (p, memcpy_at b (bytes_received s) data)) (psram_buffer s),
               bytes_received := bytes_received s + length data,
               md5 := md5_add (md5 s) data\<rparr>,
            w)"
proof -
  have "size_t_add (bytes_received s) (length data) = bytes_received s + length data"
    using assms(2,3) by (intro size_t_add_small) simp
  with assms(1,2) show ?thesis
    by (simp add: IDFOTABackend_write_def)
qed

text \<open>Chunks that fit the buffer are all accepted, and the buffer then holds their
  concatenation at the offset where the first one went.\<close>
lemma write_chunks_psram:
  assumes "use_psram s" "psram_buffer s = Some (p, b)" "length b = buffer_size s"
      and "bytes_received s + length (concat cs) \<le> buffer_size s"
      and "buffer_size s < 2 ^ 32"
  shows "write_chunks P s w cs =
           (replicate (length cs) OTA_RESPONSE_OK,
            s\<lparr>psram_buffer := Some (p, memcpy_at b (bytes_received s) (concat cs)),
               bytes_received := bytes_received s + length (concat cs),
               md5 := (md5 s)\<lparr>fed := fed (md5 s) @ concat cs\<rparr>\<rparr>,
            w)"
  using assms
proof (induction cs arbitrary: s b)
  case Nil
  then show ?case
    by (cases s) (simp add: memcpy_at_nil)
next
  case (Cons c cs)
  define s1 where "s1 = s\<lparr>psram_buffer := Some (p, memcpy_at b (bytes_received s) c),
               bytes_received := bytes_received s + length c,
               md5 := md5_add (md5 s) c\<rparr>"
  have w: "IDFOTABackend_write P s w c = (OTA_RESPONSE_OK, s1, w)"
    using Cons.prems by (subst write_psram_ok) (simp_all add: s1_def)
  have l: "length (memcpy_at b (bytes_received s) c) = buffer_size s1"
    using Cons.prems by (simp add: s1_def memcpy_at_length)
  have "write_chunks P s1 w cs =
           (replicate (length cs) OTA_RESPONSE_OK,
            s1\<lparr>psram_buffer := Some (p, memcpy_at (memcpy_at b (bytes_received s) c)
                                          (bytes_received s1) (concat cs)),
               bytes_received := bytes_received s1 + length (concat cs),
               md5 := (md5 s1)\<lparr>fed := fed (md5 s1) @ concat cs\<rparr>\<rparr>,
            w)"
    using Cons.prems l by (intro Cons.IH) (simp_all add: s1_def)
  moreover have "memcpy_at (memcpy_at b (bytes_received s) c) (bytes_received s1) (concat cs)
                 = memcpy_at b (bytes_received s) (c @ concat cs)"
    using Cons.prems by (simp add: s1_def memcpy_at_append)
  ultimately show ?case
    using w by (simp add: s1_def md5_add_def add.assoc)
qed

lemma begin_psram_sim:
  assumes "use_psram s" "faults w = []" "0 < S" "S \<le> psram_free w"
  shows "\<exists>p w1. IDFOTABackend_begin sim s w S =
           (OTA_RESPONSE_OK,
            s\<lparr>psram_buffer := Some (p, replicate S 0), buffer_size := S, bytes_received := 0,
              md5 := md5_init (md5 s)\<rparr>, w1)
         \<and> faults w1 = [] \<and> table w1 = table w \<and> flash w1 = flash w \<and> boot w1 = boot w"
proof -
  let ?p = "Suc (foldr max (map fst (psram_blocks w)) 0)"
  let ?w1 = "w\<lparr>psram_free := psram_free w - S, psram_blocks := (?p, S) # psram_blocks w\<rparr>"
  have "IDFOTABackend_begin sim s w S =
           (OTA_RESPONSE_OK,
            s\<lparr>psram_buffer := Some (?p, replicate S 0), buffer_size := S, bytes_received := 0,
              md5 := md5_init (md5 s)\<rparr>, ?w1)"
    using assms
    by (simp add: IDFOTABackend_begin_def sim_sel sim_malloc_def next_fault_none Let_def)
  then show ?thesis
    using assms(2) by (intro exI [of _ ?p] exI [of _ ?w1]) simp
qed

lemma end_psram_sim:
  assumes "use_psram s" "\<not> md5_set s" "faults w = []"
      and "target_lookup sim s w = Some part"
      and "buffer_size s = length (buffer_bytes s)"
      and "length (buffer_bytes s) \<le> p_size (table w ! part)"
      and "buffer_size s + CHUNK_SIZE \<le> 2 ^ 32"
  shows "\<exists>s3 w3. IDFOTABackend_end sim s w = Some (OTA_RESPONSE_OK, s3, w3)
           \<and> boot w3 = part \<and> take (buffer_size s) (flash w3 part) = buffer_bytes s
           \<and> faults w3 = [] \<and> table w3 = table w"
proof -
  let ?buf = "buffer_bytes s" and ?psz = "p_size (table w ! part)"
  have part: "part < length (table w)" "p_type (table w ! part) = ESP_PARTITION_TYPE_APP"
    using assms(4)
    by (auto simp add: target_lookup_def sim_sel split: if_splits dest: sim_find_first_Some)
  define rest where "rest = drop ?psz (flash w part)"
  define w1 where "w1 = w\<lparr>flash := (flash w)(part := replicate ?psz 255 @ rest)\<rparr>"
  have 1: "esp_partition_erase_range sim part 0 (partition_size sim part w) w = (ESP_OK, w1)"
    using assms(3) part
    by (simp add: sim_sel sim_partition_size_def sim_erase_ok w1_def rest_def)
  have small: "length ?buf + CHUNK_SIZE \<le> 2 ^ 32"
    using assms(5,7) by simp
  have "\<exists>w'. flash_from_psram sim part ?buf (length ?buf) 0 w1 = Some (ESP_OK, w')
           \<and> faults w' = [] \<and> table w' = table w1 \<and> boot w' = boot w1
           \<and> flash w' part = ?buf @ replicate (p_size (table w1 ! part) - length ?buf) 255 @ rest"
    using assms(3,6) part small by (intro flash_from_psram_sim) (simp_all add: w1_def)
  then obtain w2 where
    2: "flash_from_psram sim part ?buf (buffer_size s) 0 w1 = Some (ESP_OK, w2)"
    and w2: "faults w2 = []" "table w2 = table w"
      "flash w2 part = ?buf @ replicate (?psz - length ?buf) 255 @ rest"
    by (auto simp add: w1_def assms(5))
  have "\<exists>w'. verify_flash sim part ?buf (length ?buf) 0 w2 = Some (True, w')
           \<and> faults w' = [] \<and> table w' = table w2 \<and> boot w' = boot w2
           \<and> flash w' = flash w2"
    using w2 assms(6) part small by (intro verify_flash_sim) simp_all
  then obtain w3 where 3: "verify_flash sim part ?buf (buffer_size s) 0 w2 = Some (True, w3)"
    and w3: "faults w3 = []" "table w3 = table w" "flash w3 = flash w2"
    by (auto simp add: w2 assms(5))
  have 4: "esp_ota_set_boot_partition sim (Some part) w3 = (ESP_OK, w3\<lparr>boot := part\<rparr>)"
    using w3 part by (simp add: sim_sel sim_set_boot_ok)
  have "IDFOTABackend_end sim s w = end_psram sim s w"
    using assms(1,2) by (simp add: end_without_md5)
  also have "\<dots> = Some (abort_return OTA_RESPONSE_OK sim (s\<lparr>partition_ptr := Some part\<rparr>)
                            (w3\<lparr>boot := part\<rparr>))"
    using end_psram_Some [OF assms(4) 1 2 3 4] by simp
  finally have e: "IDFOTABackend_end sim s w
      = Some (OTA_RESPONSE_OK,
              IDFOTABackend_abort sim (s\<lparr>partition_ptr := Some part\<rparr>) (w3\<lparr>boot := part\<rparr>))"
    by (simp add: abort_return_eq)
  obtain s4 w4 where a: "IDFOTABackend_abort sim (s\<lparr>partition_ptr := Some part\<rparr>)
                           (w3\<lparr>boot := part\<rparr>) = (s4, w4)"
    by (cases "IDFOTABackend_abort sim (s\<lparr>partition_ptr := Some part\<rparr>) (w3\<lparr>boot := part\<rparr>)")
  from abort_sim_flash [of "s\<lparr>partition_ptr := Some part\<rparr>" "w3\<lparr>boot := part\<rparr>"] a
  have "flash w4 = flash w2" "boot w4 = part" "faults w4 = []" "table w4 = table w"
    by (simp_all add: w3)
  with w2 assms(5) e a show ?thesis
    by simp
qed

text \<open>A whole session in PSRAM mode.\<close>
lemma roundtrip_psram:
  assumes "use_psram s" "\<not> md5_set s" "faults w = []"
      and "0 < S" "S + CHUNK_SIZE \<le> 2 ^ 32" "length (concat cs) = S"
      and "S \<le> psram_free w"
      and "target_lookup sim s w = Some part" "S \<le> p_size (table w ! part)"
  shows "\<exists>s1 w1 s2 w2 s3 w3.
           IDFOTABackend_begin sim s w S = (OTA_RESPONSE_OK, s1, w1)
         \<and> write_chunks sim s1 w1 cs = (replicate (length cs) OTA_RESPONSE_OK, s2, w2)
         \<and> IDFOTABackend_end sim s2 w2 = Some (OTA_RESPONSE_OK, s3, w3)
         \<and> boot w3 = part \<and> take S (flash w3 part) = concat cs
         \<and> faults w3 = [] \<and> table w3 = table w"
proof -
  from begin_psram_sim [OF assms(1,3,4,7)] obtain p w1 where
    b: "IDFOTABackend_begin sim s w S =
           (OTA_RESPONSE_OK,
            s\<lparr>psram_buffer := Some (p, replicate S 0), buffer_size := S, bytes_received := 0,
              md5 := md5_init (md5 s)\<rparr>, w1)"
    and w1: "faults w1 = []" "table w1 = table w"
    by blast
  define s1 where "s1 = s\<lparr>psram_buffer := Some (p, replicate S 0), buffer_size := S,
                          bytes_received := 0, md5 := md5_init (md5 s)\<rparr>"
  define s2 where "s2 = s1\<lparr>psram_buffer := Some (p, memcpy_at (replicate S 0)
                                                  (bytes_received s1) (concat cs)),
               bytes_received := bytes_received s1 + length (concat cs),
               md5 := (md5 s1)\<lparr>fed := fed (md5 s1) @ concat cs\<rparr>\<rparr>"
  have S: "S < 2 ^ 32"
    using assms(5) by (simp add: CHUNK_SIZE_def)
  have wr: "write_chunks sim s1 w1 cs = (replicate (length cs) OTA_RESPONSE_OK, s2, w1)"
    unfolding s2_def using assms(1,6) S
    by (intro write_chunks_psram) (simp_all add: s1_def)
  have buf: "buffer_bytes s2 = concat cs"
    using assms(6) by (simp add: s2_def s1_def buffer_bytes_def memcpy_at_all)
  have s2: "use_psram s2" "\<not> md5_set s2" "buffer_size s2 = S"
    "target_partition_label s2 = target_partition_label s"
    using assms(1,2) by (simp_all add: s2_def s1_def)
  have tl: "target_lookup sim s2 w1 = Some part"
    using assms(8) s2(4)
    by (auto simp add: target_lookup_def sim_sel sim_find_first_table [OF w1(2)]
        split: if_splits)
  have "\<exists>s3 w3. IDFOTABackend_end sim s2 w1 = Some (OTA_RESPONSE_OK, s3, w3)
           \<and> boot w3 = part \<and> take (buffer_size s2) (flash w3 part) = buffer_bytes s2
           \<and> faults w3 = [] \<and> table w3 = table w1"
    using s2 w1 tl assms(5,6,9) by (intro end_psram_sim) (simp_all add: buf)
  with b wr s2 buf w1 show ?thesis
    unfolding s1_def [symmetric] by auto
qed


lemma sim_next_update_Some:
  assumes "sim_next_update w = Some part"
  shows "part < length (table w)" "p_type (table w ! part) = ESP_PARTITION_TYPE_APP"
  using assms
  by (auto simp add: sim_next_update_def split: if_splits dest: sim_find_first_Some)

lemma begin_direct_sim:
  assumes "\<not> use_psram s" "faults w = []" "sim_next_update w = Some part"
      and "S \<le> p_size (table w ! part)"
  shows "\<exists>h w1. IDFOTABackend_begin sim s w S =
           (OTA_RESPONSE_OK,
            s\<lparr>partition_ptr := Some part, update_handle := h, md5 := md5_init (md5 s)\<rparr>, w1)
         \<and> faults w1 = [] \<and> table w1 = table w
         \<and> map_of (ota_ops w1) h = Some (part, 0)
         \<and> flash w1 part = replicate (p_size (table w ! part)) 255"
proof -
  let ?wa = "w\<lparr>wdt_timeout_ms := 15000\<rparr>"
  let ?h = "fresh_handle ?wa"
  let ?wb = "?wa\<lparr>flash := (flash ?wa)(part := replicate (p_size (table ?wa ! part)) 255),
                ota_ops := (?h, part, 0) # ota_ops ?wa\<rparr>"
  let ?w1 = "?wb\<lparr>wdt_timeout_ms := 5 * 1000\<rparr>"
  have part: "part < length (table w)"
    using assms(3) by (rule sim_next_update_Some)
  have ob: "sim_ota_begin part S (update_handle s) ?wa = (ESP_OK, ?h, ?wb)"
    using assms(2,4) part by (simp add: sim_ota_begin_def next_fault_none)
  have "IDFOTABackend_begin sim s w S =
           (OTA_RESPONSE_OK,
            s\<lparr>partition_ptr := Some part, update_handle := ?h, md5 := md5_init (md5 s)\<rparr>, ?w1)"
    using assms(1,3) ob by (simp add: IDFOTABackend_begin_def sim_sel Let_def)
  then show ?thesis
    using assms(2) by (intro exI [of _ ?h] exI [of _ ?w1]) simp
qed

lemma sim_ota_write_ok:
  assumes "faults w = []" "map_of (ota_ops w) h = Some (part, off)"
      and "off + length data \<le> p_size (table w ! part)"
  shows "sim_ota_write h data w
         = (ESP_OK,
            w\<lparr>flash := (flash w)
                 (part := take off (flash w part)
                          @ map2 (AND) (take (length data) (drop off (flash w part))) data
                          @ drop (off + length data) (flash w part)),
              ota_ops := (h, part, off + length data)
                         # filter (\<lambda>x. fst x \<noteq> h) (ota_ops w)\<rparr>)"
  using assms by (simp add: sim_ota_write_def next_fault_none)

text \<open>Chunks that fit the partition are all accepted by the transaction, and land one after
  the other on the erased flash.\<close>
lemma write_chunks_direct:
  fixes written :: "u8 list"
  assumes "\<not> use_psram s" "faults w = []"
      and "map_of (ota_ops w) (update_handle s) = Some (part, off)"
      and "off + length (concat cs) \<le> p_size (table w ! part)"
      and "flash w part = written @ replicate (p_size (table w ! part) - off) 255"
      and "length written = off"
  shows "\<exists>w'. write_chunks sim s w cs =
           (replicate (length cs) OTA_RESPONSE_OK,
            s\<lparr>md5 := (md5 s)\<lparr>fed := fed (md5 s) @ concat cs\<rparr>\<rparr>, w')
         \<and> faults w' = [] \<and> table w' = table w
         \<and> map_of (ota_ops w') (update_handle s) = Some (part, off + length (concat cs))
         \<and> flash w' part = written @ concat cs
              @ replicate (p_size (table w ! part) - (off + length (concat cs))) 255"
  using assms
proof (induction cs arbitrary: s w off written)
  case Nil
  then show ?case
    by (cases s) simp
next
  case (Cons c cs)
  let ?psz = "p_size (table w ! part)" and ?h = "update_handle s"
  define d' where "d' = written @ c @ replicate (?psz - (off + length c)) 255"
  define w1 where "w1 = w\<lparr>flash := (flash w)(part := d'),
              ota_ops := (?h, part, off + length c) # filter (\<lambda>x. fst x \<noteq> ?h) (ota_ops w)\<rparr>"
  define s1 where "s1 = s\<lparr>md5 := md5_add (md5 s) c\<rparr>"
  have fit: "off + length c \<le> ?psz" "length c \<le> ?psz - off"
    using Cons.prems(4) by simp_all
  have "take off (flash w part)
          @ map2 (AND) (take (length c) (drop off (flash w part))) c
          @ drop (off + length c) (flash w part) = d'"
    using Cons.prems(6) fit
    by (simp add: Cons.prems(5) d'_def map2_and_erased)
  then have ow: "sim_ota_write ?h c w = (ESP_OK, w1)"
    using Cons.prems(2,3) fit by (simp add: sim_ota_write_ok w1_def)
  have wr: "IDFOTABackend_write sim s w c = (OTA_RESPONSE_OK, s1, w1)"
    using Cons.prems(1) ow by (simp add: IDFOTABackend_write_def sim_sel s1_def)
  have "\<exists>w'. write_chunks sim s1 w1 cs =
           (replicate (length cs) OTA_RESPONSE_OK,
            s1\<lparr>md5 := (md5 s1)\<lparr>fed := fed (md5 s1) @ concat cs\<rparr>\<rparr>, w')
         \<and> faults w' = [] \<and> table w' = table w1
         \<and> map_of (ota_ops w') (update_handle s1)
             = Some (part, off + length c + length (concat cs))
         \<and> flash w' part = (written @ c) @ concat cs
              @ replicate (p_size (table w1 ! part)
                           - (off + length c + length (concat cs))) 255"
    using Cons.prems
    by (intro Cons.IH) (simp_all add: s1_def w1_def d'_def)
  then obtain w' where
    "write_chunks sim s1 w1 cs =
           (replicate (length cs) OTA_RESPONSE_OK,
            s1\<lparr>md5 := (md5 s1)\<lparr>fed := fed (md5 s1) @ concat cs\<rparr>\<rparr>, w')"
    "faults w' = []" "table w' = table w1"
    "map_of (ota_ops w') (update_handle s1) = Some (part, off + length c + length (concat cs))"
    "flash w' part = (written @ c) @ concat cs
              @ replicate (p_size (table w1 ! part)
                           - (off + length c + length (concat cs))) 255"
    by blast
  with wr show ?case
    by (intro exI [of _ w']) (simp add: s1_def w1_def md5_add_def add.assoc)
qed

lemma end_direct_sim:
  assumes "\<not> use_psram s" "\<not> md5_set s" "faults w = []"
      and "map_of (ota_ops w) (update_handle s) = Some (part', off)" "0 < off"
      and "partition_ptr s = Some part" "part < length (table w)"
      and "p_type (table w ! part) = ESP_PARTITION_TYPE_APP"
  shows "\<exists>s3 w3. IDFOTABackend_end sim s w = Some (OTA_RESPONSE_OK, s3, w3)
           \<and> boot w3 = part \<and> flash w3 = flash w
           \<and> faults w3 = [] \<and> table w3 = table w"
proof -
  let ?w1 = "w\<lparr>ota_ops := filter (\<lambda>x. fst x \<noteq> update_handle s) (ota_ops w)\<rparr>"
  have 1: "sim_ota_end (update_handle s) w = (ESP_OK, ?w1)"
    using assms(3,4,5) by (simp add: sim_ota_end_def next_fault_none)
  have 2: "sim_set_boot (Some part) ?w1 = (ESP_OK, ?w1\<lparr>boot := part\<rparr>)"
    using assms(3,7,8) by (simp add: sim_set_boot_ok)
  have "IDFOTABackend_end sim s w
        = Some (OTA_RESPONSE_OK, s\<lparr>update_handle := 0\<rparr>, ?w1\<lparr>boot := part\<rparr>)"
    using assms(1,2,6) 1 2
    by (simp add: end_without_md5 end_direct_def sim_sel)
  then show ?thesis
    using assms(3) by simp
qed

text \<open>A whole session in standard mode.\<close>
lemma roundtrip_direct:
  assumes "\<not> use_psram s" "\<not> md5_set s" "faults w = []"
      and "0 < S" "length (concat cs) = S"
      and "sim_next_update w = Some part" "S \<le> p_size (table w ! part)"
  shows "\<exists>s1 w1 s2 w2 s3 w3.
           IDFOTABackend_begin sim s w S = (OTA_RESPONSE_OK, s1, w1)
         \<and> write_chunks sim s1 w1 cs = (replicate (length cs) OTA_RESPONSE_OK, s2, w2)
         \<and> IDFOTABackend_end sim s2 w2 = Some (OTA_RESPONSE_OK, s3, w3)
         \<and> boot w3 = part \<and> take S (flash w3 part) = concat cs
         \<and> faults w3 = [] \<and> table w3 = table w"
proof -
  let ?psz = "p_size (table w ! part)"
  have part: "part < length (table w)" "p_type (table w ! part) = ESP_PARTITION_TYPE_APP"
    using assms(6) by (rule sim_next_update_Some)+
  from begin_direct_sim [OF assms(1,3,6,7)] obtain h w1 where
    b: "IDFOTABackend_begin sim s w S =
           (OTA_RESPONSE_OK,
            s\<lparr>partition_ptr := Some part, update_handle := h, md5 := md5_init (md5 s)\<rparr>, w1)"
    and w1: "faults w1 = []" "table w1 = table w" "map_of (ota_ops w1) h = Some (part, 0)"
      "flash w1 part = replicate ?psz 255"
    by blast
  define s1 where "s1 = s\<lparr>partition_ptr := Some part, update_handle := h,
                          md5 := md5_init (md5 s)\<rparr>"
  define s2 where "s2 = s1\<lparr>md5 := (md5 s1)\<lparr>fed := fed (md5 s1) @ concat cs\<rparr>\<rparr>"
  have "\<exists>w'. write_chunks sim s1 w1 cs =
           (replicate (length cs) OTA_RESPONSE_OK,
            s1\<lparr>md5 := (md5 s1)\<lparr>fed := fed (md5 s1) @ concat cs\<rparr>\<rparr>, w')
         \<and> faults w' = [] \<and> table w' = table w1
         \<and> map_of (ota_ops w') (update_handle s1) = Some (part, 0 + length (concat cs))
         \<and> flash w' part = [] @ concat cs
              @ replicate (p_size (table w1 ! part) - (0 + length (concat cs))) 255"
    using assms(1,5,7) w1 by (intro write_chunks_direct) (simp_all add: s1_def)
  then obtain w2 where
    wr: "write_chunks sim s1 w1 cs = (replicate (length cs) OTA_RESPONSE_OK, s2, w2)"
    and w2: "faults w2 = []" "table w2 = table w"
      "map_of (ota_ops w2) (update_handle s1) = Some (part, S)"
      "flash w2 part = concat cs @ replicate (?psz - S) 255"
    using w1(2) assms(5) by (auto simp add: s2_def)
  have "\<exists>s3 w3. IDFOTABackend_end sim s2 w2 = Some (OTA_RESPONSE_OK, s3, w3)
           \<and> boot w3 = part \<and> flash w3 = flash w2
           \<and> faults w3 = [] \<and> table w3 = table w2"
    using assms(1,2,4) w2 part
    by (intro end_direct_sim [where part' = part and off = S]) (simp_all add: s2_def s1_def)
  with b wr w2 assms(5) show ?thesis
    unfolding s1_def [symmetric] by auto
qed


text \<open>
  Claim C2. On the reference platform, for every image size \<open>S > 0\<close> (a \<^verbatim>\<open>size_t\<close>; in
  PSRAM mode at most \<open>2^32 - 4096\<close>, so that the \<^verbatim>\<open>size_t\<close> offset of the loops of \<open>end\<close>
  over the buffer does not wrap) and every list of chunks whose lengths add up to \<open>S\<close>, with
  no expected digest set and no failure of the storage layer (no injected failure; the pool
  has \<open>S\<close> bytes free in PSRAM mode; the target partition exists and holds \<open>S\<close> bytes), the
  sequence \<open>begin(S)\<close>, \<open>write\<close> of each chunk in order, \<open>end()\<close> returns Ok at every step,
  the target partition is the boot target afterwards, and reading its first \<open>S\<close> bytes back
  gives the concatenation of the chunks. The target partition is the one \<open>end\<close> looks up in
  PSRAM mode and the next update partition in standard mode.
\<close>
theorem session_roundtrip:
  assumes "0 < S" and "S < 2 ^ 32" and "length (concat cs) = S"
      and "\<not> md5_set s" and "faults w = []"
      and "if use_psram s
           then S \<le> 2 ^ 32 - CHUNK_SIZE
                \<and> S \<le> heap_caps_get_free_size sim w \<and> target_lookup sim s w = Some part
           else esp_ota_get_next_update_partition sim w = Some part"
      and "S \<le> partition_size sim part w"
  shows "\<exists>s2 w2 s3 w3.
           session sim s w S cs
             = (OTA_RESPONSE_OK, replicate (length cs) OTA_RESPONSE_OK, s2, w2)
         \<and> IDFOTABackend_end sim s2 w2 = Some (OTA_RESPONSE_OK, s3, w3)
         \<and> boot w3 = part
         \<and> esp_partition_read sim part 0 S w3 = (ESP_OK, concat cs, w3)"
proof -
  have psz: "S \<le> p_size (table w ! part)"
    using assms(7) by (simp add: sim_sel sim_partition_size_def)
  have "\<exists>s1 w1 s2 w2 s3 w3.
           IDFOTABackend_begin sim s w S = (OTA_RESPONSE_OK, s1, w1)
         \<and> write_chunks sim s1 w1 cs = (replicate (length cs) OTA_RESPONSE_OK, s2, w2)
         \<and> IDFOTABackend_end sim s2 w2 = Some (OTA_RESPONSE_OK, s3, w3)
         \<and> boot w3 = part \<and> take S (flash w3 part) = concat cs
         \<and> faults w3 = [] \<and> table w3 = table w"
  proof (cases "use_psram s")
    case True
    with assms(6) have "S \<le> psram_free w" "target_lookup sim s w = Some part"
      and "S + CHUNK_SIZE \<le> 2 ^ 32"
      by (simp_all add: sim_sel CHUNK_SIZE_def)
    with True assms(1,3-5) psz show ?thesis
      by (intro roundtrip_psram)
  next
    case False
    with assms(6) have "sim_next_update w = Some part"
      by (simp add: sim_sel)
    with False assms(1,3-5) psz show ?thesis
      by (intro roundtrip_direct)
  qed
  then obtain s1 w1 s2 w2 s3 w3 where
    r: "IDFOTABackend_begin sim s w S = (OTA_RESPONSE_OK, s1, w1)"
      "write_chunks sim s1 w1 cs = (replicate (length cs) OTA_RESPONSE_OK, s2, w2)"
      "IDFOTABackend_end sim s2 w2 = Some (OTA_RESPONSE_OK, s3, w3)"
      "boot w3 = part"
    and f: "take S (flash w3 part) = concat cs" "faults w3 = []" "table w3 = table w"
    by blast
  have part: "part < length (table w)"
    using assms(6)
    by (auto simp add: target_lookup_def sim_sel split: if_splits
        dest: sim_find_first_Some sim_next_update_Some)
  have "esp_partition_read sim part 0 S w3 = (ESP_OK, concat cs, w3)"
    using f part psz by (simp add: sim_sel sim_read_ok)
  moreover have "session sim s w S cs
                 = (OTA_RESPONSE_OK, replicate (length cs) OTA_RESPONSE_OK, s2, w2)"
    using r(1,2) by (simp add: session_def)
  ultimately show ?thesis
    using r(3,4) by blast
qed

text \<open>Claim C2 on the device, for both sessions of 3 bytes in two chunks: in PSRAM mode the
  image is read back from \<open>ota_0\<close>, in standard mode from \<open>ota_1\<close>.\<close>
theorem session_roundtrip_witness:
  "target_lookup sim (make_ota_backend True) device = Some 1
   \<and> esp_ota_get_next_update_partition sim device = Some 2
   \<and> (\<exists>s3 w3. IDFOTABackend_end sim (fst psram_session) (snd psram_session)
                  = Some (OTA_RESPONSE_OK, s3, w3)
         \<and> boot w3 = 1 \<and> esp_partition_read sim 1 0 3 w3 = (ESP_OK, [1, 2, 3], w3))
   \<and> (\<exists>s3 w3. IDFOTABackend_end sim (fst direct_session) (snd direct_session)
                  = Some (OTA_RESPONSE_OK, s3, w3)
         \<and> boot w3 = 2 \<and> esp_partition_read sim 2 0 3 w3 = (ESP_OK, [1, 2, 3], w3))"
proof -
  have h: "(0::nat) < 3" "(3::nat) < 2 ^ 32" "length (concat [[1, 2], [3 :: u8]]) = 3"
    "faults device = []"
    by (simp_all add: device_def)
  have p1: "\<not> md5_set (make_ota_backend True)"
    and p2: "if use_psram (make_ota_backend True)
           then 3 \<le> 2 ^ 32 - CHUNK_SIZE
                \<and> 3 \<le> heap_caps_get_free_size sim device
                \<and> target_lookup sim (make_ota_backend True) device = Some 1
           else esp_ota_get_next_update_partition sim device = Some 1"
    and p3: "3 \<le> partition_size sim 1 device"
    and t1: "target_lookup sim (make_ota_backend True) device = Some 1"
    by (simp_all add: eval_simps)
  have d1: "\<not> md5_set (make_ota_backend False)"
    and d2: "if use_psram (make_ota_backend False)
           then 3 \<le> 2 ^ 32 - CHUNK_SIZE
                \<and> 3 \<le> heap_caps_get_free_size sim device
                \<and> target_lookup sim (make_ota_backend False) device = Some 2
           else esp_ota_get_next_update_partition sim device = Some 2"
    and d3: "3 \<le> partition_size sim 2 device"
    and t2: "esp_ota_get_next_update_partition sim device = Some 2"
    by (simp_all add: eval_simps)
  from session_roundtrip [OF h(1-3) p1 h(4) p2 p3]
  have a: "\<exists>s3 w3. IDFOTABackend_end sim (fst psram_session) (snd psram_session)
                  = Some (OTA_RESPONSE_OK, s3, w3)
         \<and> boot w3 = 1 \<and> esp_partition_read sim 1 0 3 w3 = (ESP_OK, [1, 2, 3], w3)"
    by (auto simp add: psram_session_def)
  from session_roundtrip [OF h(1-3) d1 h(4) d2 d3]
  have b: "\<exists>s3 w3. IDFOTABackend_end sim (fst direct_session) (snd direct_session)
                  = Some (OTA_RESPONSE_OK, s3, w3)
         \<and> boot w3 = 2 \<and> esp_partition_read sim 2 0 3 w3 = (ESP_OK, [1, 2, 3], w3)"
    by (auto simp add: direct_session_def)
  from t1 t2 a b show ?thesis
    by (simp only: simp_thms)
qed

end
